theory Spec2Isabelle
  imports Main "HOL-Library.Sublist"
begin

section \<open>Epicast email templating\<close>

text \<open>
  A shallow embedding of \<^verbatim>\<open>src/epicast/epicast_emails.py\<close>: the class
  \<^verbatim>\<open>EpicastEmails\<close> with its nested namespace \<^verbatim>\<open>Template\<close> and the static
  methods \<^verbatim>\<open>prepare\<close>, \<^verbatim>\<open>compose\<close>, \<^verbatim>\<open>get_alert\<close>,
  \<^verbatim>\<open>get_notification\<close> and \<^verbatim>\<open>get_reminder\<close>.

  Python strings are lists of characters; a character is a \<^typ>\<open>char\<close>, which covers
  the code points below 256 (every template is plain ASCII). Tuples of substitution
  values are lists of \<open>pyval\<close>. The exceptions that the \<^verbatim>\<open>%\<close> operator can raise
  are values of \<open>py_error\<close>, and a method that may raise returns
  \<open>py_error + result\<close>.
\<close>

subsection \<open>The string operations of the Python library that the module calls\<close>

definition LF :: char where
  "LF = CHR 0x0A"

definition CR :: char where
  "CR = CHR 0x0D"

definition CRLF :: string where
  "CRLF = [CR, LF]"

text \<open>
  \<^verbatim>\<open>str.strip()\<close> without argument removes leading and trailing whitespace: the
  longest prefix and the longest suffix made of whitespace characters. Below 256 the
  whitespace code points of Python 3 are 9 to 13, 28 to 32, 133 and 160. The right strip
  goes through the string once: \<open>rstrip_cons c r\<close> puts \<open>c\<close> before the
  stripped rest \<open>r\<close> unless \<open>r\<close> is empty and \<open>c\<close> is whitespace.
\<close>

definition isspace :: "char \<Rightarrow> bool" where
  "isspace c =
     (let n = (of_char c :: nat)
      in (9 \<le> n \<and> n \<le> 13) \<or> (28 \<le> n \<and> n \<le> 32) \<or> n = 133 \<or> n = 160)"

definition str_lstrip :: "string \<Rightarrow> string" where
  "str_lstrip s = dropWhile isspace s"

fun rstrip_cons :: "char \<Rightarrow> string \<Rightarrow> string" where
  "rstrip_cons c [] = (if isspace c then [] else [c])"
| "rstrip_cons c (r # rs) = c # r # rs"

fun str_rstrip :: "string \<Rightarrow> string" where
  "str_rstrip [] = []"
| "str_rstrip (c # cs) = rstrip_cons c (str_rstrip cs)"

definition str_strip :: "string \<Rightarrow> string" where
  "str_strip s = str_rstrip (str_lstrip s)"

text \<open>
  \<^verbatim>\<open>text.split(sep)\<close> for a separator of one character; the empty string gives
  one empty field. \<open>field_cons c fs\<close> puts \<open>c\<close> at the front of the first field.
\<close>

fun field_cons :: "char \<Rightarrow> string list \<Rightarrow> string list" where
  "field_cons c [] = [[c]]"
| "field_cons c (l # ls) = (c # l) # ls"

fun str_split :: "char \<Rightarrow> string \<Rightarrow> string list" where
  "str_split sep [] = [[]]"
| "str_split sep (c # cs) =
     (if c = sep then [] # str_split sep cs else field_cons c (str_split sep cs))"

text \<open>\<^verbatim>\<open>sep.join(parts)\<close>.\<close>

fun str_join :: "string \<Rightarrow> string list \<Rightarrow> string" where
  "str_join sep [] = []"
| "str_join sep [l] = l"
| "str_join sep (l # m # ls) = l @ sep @ str_join sep (m # ls)"

text \<open>
  \<^verbatim>\<open>s.replace(old, new)\<close> replaces every occurrence of \<open>old\<close>, scanning from the left
  and continuing after each replaced occurrence. With an empty \<open>old\<close> Python puts
  \<open>new\<close> before every character and at the end.
\<close>

function str_replace_from :: "string \<Rightarrow> string \<Rightarrow> string \<Rightarrow> string" where
  "str_replace_from old new [] = []"
| "str_replace_from old new (c # cs) =
     (if old \<noteq> [] \<and> prefix old (c # cs)
      then new @ str_replace_from old new (drop (length old) (c # cs))
      else c # str_replace_from old new cs)"
  by pat_completeness auto
termination
  by (relation "measure (\<lambda>(old, new, s). length s)") (auto simp: neq_Nil_conv)

definition str_replace :: "string \<Rightarrow> string \<Rightarrow> string \<Rightarrow> string" where
  "str_replace s old new =
     (if old = [] then new @ concat (map (\<lambda>c. c # new) s)
      else str_replace_from old new s)"

text \<open>
  Decimal rendering of an integer, as \<^verbatim>\<open>str(n)\<close> and \<^verbatim>\<open>'%d' % n\<close> give it;
  \<open>digit_char\<close> is applied to numbers below ten only.
\<close>

definition digit_char :: "nat \<Rightarrow> char" where
  "digit_char d = ''0123456789'' ! d"

fun str_nat :: "nat \<Rightarrow> string" where
  "str_nat n = (if n < 10 then [digit_char n] else str_nat (n div 10) @ [digit_char (n mod 10)])"

declare str_nat.simps [simp del]

definition str_int :: "int \<Rightarrow> string" where
  "str_int i = (if i < 0 then CHR ''-'' # str_nat (nat (- i)) else str_nat (nat i))"

text \<open>
  The values of a substitution tuple are strings and integers. The \<^verbatim>\<open>%\<close> operator
  raises \<^verbatim>\<open>TypeError\<close> when the tuple has too few or too many values or when
  \<^verbatim>\<open>%d\<close> meets a string, and \<^verbatim>\<open>ValueError\<close> on a format that ends after \<^verbatim>\<open>%\<close>.
  The templates use the conversions \<^verbatim>\<open>%s\<close> and \<^verbatim>\<open>%d\<close> only; the model also
  renders \<^verbatim>\<open>%%\<close>, and answers \<open>Unmodelled\<close> on any other conversion
  specification (flags, widths, other types), which Python would render or reject.
\<close>

datatype pyval = PyStr string | PyInt int

datatype py_error = TypeError | ValueError | Unmodelled

fun emit :: "string \<Rightarrow> py_error + string \<Rightarrow> py_error + string" where
  "emit s (Inl e) = Inl e"
| "emit s (Inr r) = Inr (s @ r)"

fun str_format :: "string \<Rightarrow> pyval list \<Rightarrow> py_error + string" where
  "str_format [] vs = (if vs = [] then Inr [] else Inl TypeError)"
| "str_format [c] vs =
     (if c = CHR ''%'' then Inl ValueError
      else if vs = [] then Inr [c] else Inl TypeError)"
| "str_format (c # d # ds) vs =
     (if c \<noteq> CHR ''%'' then emit [c] (str_format (d # ds) vs)
      else if d = CHR ''%'' then emit ''%'' (str_format ds vs)
      else if d = CHR ''s'' then
        (case vs of
           [] \<Rightarrow> Inl TypeError
         | PyStr s # vs' \<Rightarrow> emit s (str_format ds vs')
         | PyInt i # vs' \<Rightarrow> emit (str_int i) (str_format ds vs'))
      else if d = CHR ''d'' then
        (case vs of
           [] \<Rightarrow> Inl TypeError
         | PyStr s # vs' \<Rightarrow> Inl TypeError
         | PyInt i # vs' \<Rightarrow> emit (str_int i) (str_format ds vs'))
      else Inl Unmodelled)"

subsection \<open>The namespace \<^verbatim>\<open>Template\<close>\<close>

text \<open>
  Each dictionary entry \<^verbatim>\<open>NAME['key']\<close> is the constant \<open>NAME_key\<close>. A template
  written between triple quotes starts with the line break after the opening quotes and
  ends with the indentation before the closing quotes.
\<close>

definition SUBJECT_TAG :: string where
  "SUBJECT_TAG = ''[Crowdcast]''"

definition ALERT_subject :: string where
  "ALERT_subject = ''Crowdcast Needs Your Help''"

definition NOTIFICATION_subject :: string where
  "NOTIFICATION_subject = ''New Data Available (Deadline: Monday 10 AM)''"

definition REMINDER_subject :: string where
  "REMINDER_subject = ''Forecasts Needed (Deadline: Monday 10AM)''"

definition UNSUBSCRIBE_text :: string where
  \<open>UNSUBSCRIBE_text =
     ''\<newline>'' @
     ''        ----------\<newline>'' @
     ''\<newline>'' @
     ''        [This is an automated message. To edit your email preferences or to\<newline>'' @
     ''        stop receiving these emails, follow the unsubscribe link below.]\<newline>'' @
     ''\<newline>'' @
     ''        Unsubscribe: https://delphi.cmu.edu/crowdcast/preferences.php?user=%s\<newline>'' @
     ''      ''\<close>

definition UNSUBSCRIBE_html :: string where
  \<open>UNSUBSCRIBE_html =
     ''\<newline>'' @
     ''        <hr>\<newline>'' @
     ''        <p style="color: #666; font-size: 0.8em;">\<newline>'' @
     ''          [This is an automated message. To edit your email preferences or to\<newline>'' @
     ''          stop receiving these emails, click the unsubscribe link below.]\<newline>'' @
     ''          <br>\<newline>'' @
     ''          <a href="https://delphi.cmu.edu/crowdcast/preferences.php?user=%s">\<newline>'' @
     ''          Unsubscribe</a>\<newline>'' @
     ''        </p>\<newline>'' @
     ''      ''\<close>

definition ALERT_text :: string where
  \<open>ALERT_text =
     ''\<newline>'' @
     ''        Dear %s,\<newline>'' @
     ''\<newline>'' @
     ''        [alert text here]\<newline>'' @
     ''\<newline>'' @
     ''        -The DELPHI Team\<newline>'' @
     ''      ''\<close>

definition ALERT_html :: string where
  \<open>ALERT_html =
     ''\<newline>'' @
     ''        <p>\<newline>'' @
     ''          Dear %s,\<newline>'' @
     ''        </p><p>\<newline>'' @
     ''          [alert text here]\<newline>'' @
     ''        </p><p>\<newline>'' @
     ''          -The DELPHI Team\<newline>'' @
     ''        </p>\<newline>'' @
     ''      ''\<close>

definition SCORE_text :: string where
  \<open>SCORE_text =
     ''\<newline>'' @
     ''        Your overall score is: %d (ranked #%d)\<newline>'' @
     ''\<newline>'' @
     ''        Note: To be listed on the leaderboards, simply enter your initials on\<newline>'' @
     ''        the preferences page at\<newline>'' @
     ''        https://delphi.cmu.edu/crowdcast/preferences.php?user=%s\<newline>'' @
     ''\<newline>'' @
     ''        You can find the leaderboards at\<newline>'' @
     ''        https://delphi.cmu.edu/crowdcast/scores.php\<newline>'' @
     ''      ''\<close>

definition SCORE_html :: string where
  \<open>SCORE_html =
     ''\<newline>'' @
     ''        <p>\<newline>'' @
     ''          Your overall score is: %d (<i>ranked #%d</i>)\<newline>'' @
     ''          <br>\<newline>'' @
     ''          Note: To be listed on the <a\<newline>'' @
     ''          href="https://delphi.cmu.edu/crowdcast/scores.php">leaderboards</a>,\<newline>'' @
     ''          simply enter your initials on the preferences page <a\<newline>'' @
     ''          href="https://delphi.cmu.edu/crowdcast/preferences.php?user=%s">\<newline>'' @
     ''          here</a>.\<newline>'' @
     ''        </p>\<newline>'' @
     ''      ''\<close>

definition NOTIFICATION_text :: string where
  \<open>NOTIFICATION_text =
     ''\<newline>'' @
     ''        Dear %s,\<newline>'' @
     ''\<newline>'' @
     ''        The CDC has released another week of influenza-like-illness (ILI)\<newline>'' @
     ''        surveillance data. A new round of covid19-related forecasting is now\<newline>'' @
     ''        underway, and we need your forecasts! We are asking you to please\<newline>'' @
     ''        submit your forecasts by 10:00 AM (ET) this coming Monday. Thank you so\<newline>'' @
     ''        much for your support and cooperation!\<newline>'' @
     ''\<newline>'' @
     ''        To login and submit your forecasts, visit\<newline>'' @
     ''        https://delphi.cmu.edu/crowdcast/\<newline>'' @
     ''        and enter your User ID: %s\<newline>'' @
     ''\<newline>'' @
     ''        {SCORE}\<newline>'' @
     ''\<newline>'' @
     ''        Thank you again for your participation, and good luck on your\<newline>'' @
     ''        forecasts!\<newline>'' @
     ''\<newline>'' @
     ''        Happy Forecasting!\<newline>'' @
     ''        -The DELPHI Team\<newline>'' @
     ''      ''\<close>

definition NOTIFICATION_html :: string where
  \<open>NOTIFICATION_html =
     ''\<newline>'' @
     ''        <p>\<newline>'' @
     ''          Dear %s,\<newline>'' @
     ''        </p><p>\<newline>'' @
     ''          The CDC has released another week of influenza-like-illness (ILI)\<newline>'' @
     ''          surveillance data. A new round of covid19-related forecasting is now\<newline>'' @
     ''          underway, and we need your forecasts! We are asking you to please\<newline>'' @
     ''          submit your forecasts by <b>10:00 AM (ET)</b> this coming Monday.\<newline>'' @
     ''          Thank you so much for your support and cooperation!\<newline>'' @
     ''        </p><p>\<newline>'' @
     ''          To login and submit your forecasts, click <a\<newline>'' @
     ''          href="https://delphi.cmu.edu/crowdcast/launch.php?user=%s">here</a>\<newline>'' @
     ''          or visit https://delphi.cmu.edu/crowdcast/ and enter your User ID: %s\<newline>'' @
     ''        </p>{SCORE}<p>\<newline>'' @
     ''          Thank you again for your participation, and good luck on your\<newline>'' @
     ''          forecasts!\<newline>'' @
     ''        </p><p>\<newline>'' @
     ''          Happy Forecasting!\<newline>'' @
     ''          <br>\<newline>'' @
     ''          -The DELPHI Team\<newline>'' @
     ''        </p>\<newline>'' @
     ''      ''\<close>

definition REMINDER_text :: string where
  \<open>REMINDER_text =
     ''\<newline>'' @
     ''        Dear %s,\<newline>'' @
     ''\<newline>'' @
     ''        This is just a friendly reminder that your influenza-like-illness (ILI)\<newline>'' @
     ''        forecasts are due by 10:00AM (ET) on Monday. Thank you so much for your\<newline>'' @
     ''        support and cooperation!\<newline>'' @
     ''\<newline>'' @
     ''        To login and submit your forecasts, visit\<newline>'' @
     ''        https://delphi.cmu.edu/crowdcast and enter your User ID: %s.\<newline>'' @
     ''\<newline>'' @
     ''        Happy Forecasting!\<newline>'' @
     ''\<newline>'' @
     ''        -The DELPHI Team\<newline>'' @
     ''      ''\<close>

definition REMINDER_html :: string where
  \<open>REMINDER_html =
     ''\<newline>'' @
     ''        <p>\<newline>'' @
     ''          Dear %s,\<newline>'' @
     ''        </p><p>\<newline>'' @
     ''          This is just a friendly reminder that your influenza-like-illness\<newline>'' @
     ''          (ILI) forecasts are due by <b>10:00AM (ET) on Monday</b>. Thank you\<newline>'' @
     ''          so much for your support and cooperation!\<newline>'' @
     ''        </p><p>\<newline>'' @
     ''          To login and submit your forecasts, click <a\<newline>'' @
     ''          href="https://delphi.cmu.edu/crowdcast/launch.php?user=%s">here</a>\<newline>'' @
     ''          or visit https://delphi.cmu.edu/crowdcast/ and enter your User ID: %s\<newline>'' @
     ''        </p><p>\<newline>'' @
     ''          Happy Forecasting!\<newline>'' @
     ''          <br>\<newline>'' @
     ''          -The DELPHI Team\<newline>'' @
     ''        </p>\<newline>'' @
     ''      ''\<close>

subsection \<open>The static methods\<close>

definition prepare :: "string \<Rightarrow> string" where
  "prepare text = str_strip (str_join CRLF (map str_strip (str_split LF text)))"

definition compose ::
  "string \<Rightarrow> string \<Rightarrow> string \<Rightarrow> string \<Rightarrow> pyval list \<Rightarrow> pyval list
     \<Rightarrow> py_error + (string \<times> string \<times> string)" where
  "compose user_id subject text_template html_template text_values html_values =
     (let final_subject = SUBJECT_TAG @ '' '' @ subject;
          text_template' = text_template @ UNSUBSCRIBE_text;
          text_values' = text_values @ [PyStr user_id]
      in case str_format (prepare text_template') text_values' of
           Inl e \<Rightarrow> Inl e
         | Inr final_text \<Rightarrow>
             (let html_template' = html_template @ UNSUBSCRIBE_html;
                  html_values' = html_values @ [PyStr user_id]
              in case str_format (prepare html_template') html_values' of
                   Inl e \<Rightarrow> Inl e
                 | Inr final_html \<Rightarrow> Inr (final_subject, final_text, final_html)))"

definition get_alert :: "string \<Rightarrow> string \<Rightarrow> py_error + (string \<times> string \<times> string)" where
  "get_alert user_id user_name =
     (let values = [PyStr user_name]
      in compose user_id ALERT_subject ALERT_text ALERT_html values values)"

definition get_notification ::
  "string \<Rightarrow> string \<Rightarrow> int \<Rightarrow> int \<Rightarrow> int \<Rightarrow> int
     \<Rightarrow> py_error + (string \<times> string \<times> string)" where
  "get_notification user_id user_name last_score last_rank total_score total_rank =
     (let subject = NOTIFICATION_subject;
          text = NOTIFICATION_text;
          html = NOTIFICATION_html;
          text_values = [PyStr user_name, PyStr user_id];
          html_values = [PyStr user_name, PyStr user_id, PyStr user_id]
      in if last_score > 0
         then
           (let text' = str_replace text ''{SCORE}'' SCORE_text;
                html' = str_replace html ''{SCORE}'' SCORE_html;
                score_values = [PyInt total_score, PyInt total_rank, PyStr user_id]
            in compose user_id subject text' html'
                 (text_values @ score_values) (html_values @ score_values))
         else
           (let text' = str_replace text ''{SCORE}'' '''';
                html' = str_replace html ''{SCORE}'' ''''
            in compose user_id subject text' html' text_values html_values))"

definition get_reminder :: "string \<Rightarrow> string \<Rightarrow> py_error + (string \<times> string \<times> string)" where
  "get_reminder user_id user_name =
     (let text_values = [PyStr user_name, PyStr user_id];
          html_values = [PyStr user_name, PyStr user_id, PyStr user_id]
      in compose user_id REMINDER_subject REMINDER_text REMINDER_html text_values html_values)"

subsection \<open>The rendered bodies, line by line\<close>

text \<open>
  The lines of each returned body, written out with the values in place: the closed form
  that \<open>prepare\<close> and the substitution compute, as the lemmas \<open>get_alert_eq\<close>,
  \<open>get_notification_eq\<close> and \<open>get_reminder_eq\<close> prove. Every body ends
  with the lines of the unsubscribe fragment; a notification with a score holds the lines of
  the score fragment.
\<close>

definition unsubscribe_text_lines :: "string \<Rightarrow> string list" where
  \<open>unsubscribe_text_lines user_id =
     [''----------'',
      '''',
      ''[This is an automated message. To edit your email preferences or to'',
      ''stop receiving these emails, follow the unsubscribe link below.]'',
      '''',
      ''Unsubscribe: https://delphi.cmu.edu/crowdcast/preferences.php?user='' @ user_id]\<close>

definition score_text_lines :: "string \<Rightarrow> int \<Rightarrow> int \<Rightarrow> string list" where
  \<open>score_text_lines user_id total_score total_rank =
     [''Your overall score is: '' @ str_int total_score @ '' (ranked #'' @ str_int total_rank @ '')'',
      '''',
      ''Note: To be listed on the leaderboards, simply enter your initials on'',
      ''the preferences page at'',
      ''https://delphi.cmu.edu/crowdcast/preferences.php?user='' @ user_id,
      '''',
      ''You can find the leaderboards at'',
      ''https://delphi.cmu.edu/crowdcast/scores.php'']\<close>

definition alert_text_lines :: "string \<Rightarrow> string \<Rightarrow> string list" where
  \<open>alert_text_lines user_id user_name =
     [''Dear '' @ user_name @ '','',
      '''',
      ''[alert text here]'',
      '''',
      ''-The DELPHI Team'',
      ''''] @
     unsubscribe_text_lines user_id\<close>

definition reminder_text_lines :: "string \<Rightarrow> string \<Rightarrow> string list" where
  \<open>reminder_text_lines user_id user_name =
     [''Dear '' @ user_name @ '','',
      '''',
      ''This is just a friendly reminder that your influenza-like-illness (ILI)'',
      ''forecasts are due by 10:00AM (ET) on Monday. Thank you so much for your'',
      ''support and cooperation!'',
      '''',
      ''To login and submit your forecasts, visit'',
      ''https://delphi.cmu.edu/crowdcast and enter your User ID: '' @ user_id @ ''.'',
      '''',
      ''Happy Forecasting!'',
      '''',
      ''-The DELPHI Team'',
      ''''] @
     unsubscribe_text_lines user_id\<close>

definition notification_text_lines :: "string \<Rightarrow> string \<Rightarrow> string list" where
  \<open>notification_text_lines user_id user_name =
     [''Dear '' @ user_name @ '','',
      '''',
      ''The CDC has released another week of influenza-like-illness (ILI)'',
      ''surveillance data. A new round of covid19-related forecasting is now'',
      ''underway, and we need your forecasts! We are asking you to please'',
      ''submit your forecasts by 10:00 AM (ET) this coming Monday. Thank you so'',
      ''much for your support and cooperation!'',
      '''',
      ''To login and submit your forecasts, visit'',
      ''https://delphi.cmu.edu/crowdcast/'',
      ''and enter your User ID: '' @ user_id,
      '''',
      '''',
      '''',
      ''Thank you again for your participation, and good luck on your'',
      ''forecasts!'',
      '''',
      ''Happy Forecasting!'',
      ''-The DELPHI Team'',
      ''''] @
     unsubscribe_text_lines user_id\<close>

definition notification_score_text_lines :: "string \<Rightarrow> string \<Rightarrow> int \<Rightarrow> int \<Rightarrow> string list" where
  \<open>notification_score_text_lines user_id user_name total_score total_rank =
     [''Dear '' @ user_name @ '','',
      '''',
      ''The CDC has released another week of influenza-like-illness (ILI)'',
      ''surveillance data. A new round of covid19-related forecasting is now'',
      ''underway, and we need your forecasts! We are asking you to please'',
      ''submit your forecasts by 10:00 AM (ET) this coming Monday. Thank you so'',
      ''much for your support and cooperation!'',
      '''',
      ''To login and submit your forecasts, visit'',
      ''https://delphi.cmu.edu/crowdcast/'',
      ''and enter your User ID: '' @ user_id,
      '''',
      ''''] @
     score_text_lines user_id total_score total_rank @
     ['''',
      '''',
      ''Thank you again for your participation, and good luck on your'',
      ''forecasts!'',
      '''',
      ''Happy Forecasting!'',
      ''-The DELPHI Team'',
      ''''] @
     unsubscribe_text_lines user_id\<close>

definition unsubscribe_html_lines :: "string \<Rightarrow> string list" where
  \<open>unsubscribe_html_lines user_id =
     [''<hr>'',
      ''<p style="color: #666; font-size: 0.8em;">'',
      ''[This is an automated message. To edit your email preferences or to'',
      ''stop receiving these emails, click the unsubscribe link below.]'',
      ''<br>'',
      ''<a href="https://delphi.cmu.edu/crowdcast/preferences.php?user='' @ user_id @ ''">'',
      ''Unsubscribe</a>'',
      ''</p>'']\<close>

definition score_html_lines :: "string \<Rightarrow> int \<Rightarrow> int \<Rightarrow> string list" where
  \<open>score_html_lines user_id total_score total_rank =
     [''<p>'',
      ''Your overall score is: '' @ str_int total_score @ '' (<i>ranked #'' @ str_int total_rank @ ''</i>)'',
      ''<br>'',
      ''Note: To be listed on the <a'',
      ''href="https://delphi.cmu.edu/crowdcast/scores.php">leaderboards</a>,'',
      ''simply enter your initials on the preferences page <a'',
      ''href="https://delphi.cmu.edu/crowdcast/preferences.php?user='' @ user_id @ ''">'',
      ''here</a>.'',
      ''</p>'']\<close>

definition alert_html_lines :: "string \<Rightarrow> string \<Rightarrow> string list" where
  \<open>alert_html_lines user_id user_name =
     [''<p>'',
      ''Dear '' @ user_name @ '','',
      ''</p><p>'',
      ''[alert text here]'',
      ''</p><p>'',
      ''-The DELPHI Team'',
      ''</p>'',
      ''''] @
     unsubscribe_html_lines user_id\<close>

definition reminder_html_lines :: "string \<Rightarrow> string \<Rightarrow> string list" where
  \<open>reminder_html_lines user_id user_name =
     [''<p>'',
      ''Dear '' @ user_name @ '','',
      ''</p><p>'',
      ''This is just a friendly reminder that your influenza-like-illness'',
      ''(ILI) forecasts are due by <b>10:00AM (ET) on Monday</b>. Thank you'',
      ''so much for your support and cooperation!'',
      ''</p><p>'',
      ''To login and submit your forecasts, click <a'',
      ''href="https://delphi.cmu.edu/crowdcast/launch.php?user='' @ user_id @ ''">here</a>'',
      ''or visit https://delphi.cmu.edu/crowdcast/ and enter your User ID: '' @ user_id,
      ''</p><p>'',
      ''Happy Forecasting!'',
      ''<br>'',
      ''-The DELPHI Team'',
      ''</p>'',
      ''''] @
     unsubscribe_html_lines user_id\<close>

definition notification_html_lines :: "string \<Rightarrow> string \<Rightarrow> string list" where
  \<open>notification_html_lines user_id user_name =
     [''<p>'',
      ''Dear '' @ user_name @ '','',
      ''</p><p>'',
      ''The CDC has released another week of influenza-like-illness (ILI)'',
      ''surveillance data. A new round of covid19-related forecasting is now'',
      ''underway, and we need your forecasts! We are asking you to please'',
      ''submit your forecasts by <b>10:00 AM (ET)</b> this coming Monday.'',
      ''Thank you so much for your support and cooperation!'',
      ''</p><p>'',
      ''To login and submit your forecasts, click <a'',
      ''href="https://delphi.cmu.edu/crowdcast/launch.php?user='' @ user_id @ ''">here</a>'',
      ''or visit https://delphi.cmu.edu/crowdcast/ and enter your User ID: '' @ user_id,
      ''</p><p>'',
      ''Thank you again for your participation, and good luck on your'',
      ''forecasts!'',
      ''</p><p>'',
      ''Happy Forecasting!'',
      ''<br>'',
      ''-The DELPHI Team'',
      ''</p>'',
      ''''] @
     unsubscribe_html_lines user_id\<close>

definition notification_score_html_lines :: "string \<Rightarrow> string \<Rightarrow> int \<Rightarrow> int \<Rightarrow> string list" where
  \<open>notification_score_html_lines user_id user_name total_score total_rank =
     [''<p>'',
      ''Dear '' @ user_name @ '','',
      ''</p><p>'',
      ''The CDC has released another week of influenza-like-illness (ILI)'',
      ''surveillance data. A new round of covid19-related forecasting is now'',
      ''underway, and we need your forecasts! We are asking you to please'',
      ''submit your forecasts by <b>10:00 AM (ET)</b> this coming Monday.'',
      ''Thank you so much for your support and cooperation!'',
      ''</p><p>'',
      ''To login and submit your forecasts, click <a'',
      ''href="https://delphi.cmu.edu/crowdcast/launch.php?user='' @ user_id @ ''">here</a>'',
      ''or visit https://delphi.cmu.edu/crowdcast/ and enter your User ID: '' @ user_id,
      ''</p>''] @
     score_html_lines user_id total_score total_rank @
     [''<p>'',
      ''Thank you again for your participation, and good luck on your'',
      ''forecasts!'',
      ''</p><p>'',
      ''Happy Forecasting!'',
      ''<br>'',
      ''-The DELPHI Team'',
      ''</p>'',
      ''''] @
     unsubscribe_html_lines user_id\<close>

subsection \<open>Observations on results\<close>

text \<open>
  A call either raises (\<open>Inl\<close>) or returns the triple of subject, text body and html
  body; \<open>text_of\<close> reads the text body of a returned triple. \<open>occurrences p s\<close>
  is the number of positions of \<open>s\<close> at which \<open>p\<close> starts.
  A string is line-normalized when it has no leading or trailing whitespace and is the
  CRLF-join of lines that hold no line feed and have no leading or trailing whitespace.
\<close>

definition is_ok :: "py_error + 'a \<Rightarrow> bool" where
  "is_ok r = (case r of Inl e \<Rightarrow> False | Inr x \<Rightarrow> True)"

definition text_of :: "py_error + (string \<times> string \<times> string) \<Rightarrow> string" where
  "text_of r = (case r of Inl e \<Rightarrow> [] | Inr (s, t, h) \<Rightarrow> t)"

fun occurrences :: "string \<Rightarrow> string \<Rightarrow> nat" where
  "occurrences p [] = (if p = [] then 1 else 0)"
| "occurrences p (c # cs) = (if prefix p (c # cs) then 1 else 0) + occurrences p cs"

definition line_normalized :: "string \<Rightarrow> bool" where
  "line_normalized s \<longleftrightarrow>
     str_strip s = s \<and>
     (\<exists>ls. s = str_join CRLF ls \<and> (\<forall>l \<in> set ls. LF \<notin> set l \<and> str_strip l = l))"

text \<open>
  Two notions for the proofs about \<open>prepare\<close>: a string is stripped when it is empty or
  neither starts nor ends with whitespace, and \<open>trim_blank\<close> removes the empty lines at
  both ends of a list of lines.
\<close>

definition stripped :: "string \<Rightarrow> bool" where
  "stripped s \<longleftrightarrow> s = [] \<or> (\<not> isspace (hd s) \<and> \<not> isspace (last s))"

definition trim_blank :: "string list \<Rightarrow> string list" where
  "trim_blank ls = rev (dropWhile (\<lambda>l. l = []) (rev (dropWhile (\<lambda>l. l = []) ls)))"

section \<open>Evaluation\<close>

text \<open>
  Rewrite rules that evaluate the string operations on a literal one character at a time,
  each guarded by the test it has decided.
\<close>

lemmas template_defs =
  ALERT_text_def ALERT_html_def UNSUBSCRIBE_text_def UNSUBSCRIBE_html_def
  SCORE_text_def SCORE_html_def NOTIFICATION_text_def NOTIFICATION_html_def
  REMINDER_text_def REMINDER_html_def
  SUBJECT_TAG_def ALERT_subject_def NOTIFICATION_subject_def REMINDER_subject_def

lemmas lines_defs =
  unsubscribe_text_lines_def unsubscribe_html_lines_def score_text_lines_def score_html_lines_def
  alert_text_lines_def alert_html_lines_def reminder_text_lines_def reminder_html_lines_def
  notification_text_lines_def notification_html_lines_def
  notification_score_text_lines_def notification_score_html_lines_def

lemma split_hit: "str_split sep (sep # cs) = [] # str_split sep cs"
  by simp

lemma split_miss: "c \<noteq> sep \<Longrightarrow> str_split sep (c # cs) = field_cons c (str_split sep cs)"
  by simp

lemma lstrip_Nil: "str_lstrip [] = []"
  by (simp add: str_lstrip_def)

lemma lstrip_skip: "isspace c \<Longrightarrow> str_lstrip (c # cs) = str_lstrip cs"
  by (simp add: str_lstrip_def)

lemma lstrip_stop: "\<not> isspace c \<Longrightarrow> str_lstrip (c # cs) = c # cs"
  by (simp add: str_lstrip_def)

lemma format_plain:
  "c \<noteq> CHR ''%'' \<Longrightarrow> str_format (c # d # ds) vs = emit [c] (str_format (d # ds) vs)"
  by simp

lemma format_last: "c \<noteq> CHR ''%'' \<Longrightarrow> str_format [c] [] = Inr [c]"
  by simp

lemma format_s:
  "str_format (CHR ''%'' # CHR ''s'' # ds) (PyStr s # vs) = emit s (str_format ds vs)"
  by simp

lemma format_d:
  "str_format (CHR ''%'' # CHR ''d'' # ds) (PyInt i # vs) = emit (str_int i) (str_format ds vs)"
  by simp

lemma replace_skip:
  "c \<noteq> hd old \<Longrightarrow> str_replace_from old new (c # cs) = c # str_replace_from old new cs"
  by (cases old) auto

lemma replace_hit:
  "prefix old (c # cs) \<Longrightarrow> old \<noteq> [] \<Longrightarrow>
   str_replace_from old new (c # cs) = new @ str_replace_from old new (drop (length old) (c # cs))"
  by simp

lemmas eval_simps =
  prepare_def str_strip_def CRLF_def CR_def LF_def compose_def str_replace_def isspace_def
  split_hit split_miss lstrip_Nil lstrip_skip lstrip_stop
  format_plain format_last format_s format_d replace_skip replace_hit

lemmas eval_del = str_split.simps(2) str_format.simps(2,3) str_replace_from.simps(2)

section \<open>What the three methods return\<close>

lemma get_alert_eq:
  "get_alert user_id user_name =
     Inr (''[Crowdcast] Crowdcast Needs Your Help'',
          str_join CRLF (alert_text_lines user_id user_name),
          str_join CRLF (alert_html_lines user_id user_name))"
  by (simp add: get_alert_def template_defs lines_defs eval_simps del: eval_del)

lemma get_reminder_eq:
  "get_reminder user_id user_name =
     Inr (''[Crowdcast] Forecasts Needed (Deadline: Monday 10AM)'',
          str_join CRLF (reminder_text_lines user_id user_name),
          str_join CRLF (reminder_html_lines user_id user_name))"
  by (simp add: get_reminder_def template_defs lines_defs eval_simps del: eval_del)

lemma get_notification_score_eq:
  "0 < last_score \<Longrightarrow>
   get_notification user_id user_name last_score last_rank total_score total_rank =
     Inr (''[Crowdcast] New Data Available (Deadline: Monday 10 AM)'',
          str_join CRLF (notification_score_text_lines user_id user_name total_score total_rank),
          str_join CRLF (notification_score_html_lines user_id user_name total_score total_rank))"
  by (simp add: get_notification_def template_defs lines_defs eval_simps del: eval_del)

lemma get_notification_plain_eq:
  "\<not> 0 < last_score \<Longrightarrow>
   get_notification user_id user_name last_score last_rank total_score total_rank =
     Inr (''[Crowdcast] New Data Available (Deadline: Monday 10 AM)'',
          str_join CRLF (notification_text_lines user_id user_name),
          str_join CRLF (notification_html_lines user_id user_name))"
  by (simp add: get_notification_def template_defs lines_defs eval_simps del: eval_del)

lemma unsubscribe_text_eq:
  "str_format (prepare UNSUBSCRIBE_text) [PyStr user_id] =
     Inr (str_join CRLF (unsubscribe_text_lines user_id))"
  by (simp add: template_defs lines_defs eval_simps del: eval_del)

lemma unsubscribe_html_eq:
  "str_format (prepare UNSUBSCRIBE_html) [PyStr user_id] =
     Inr (str_join CRLF (unsubscribe_html_lines user_id))"
  by (simp add: template_defs lines_defs eval_simps del: eval_del)

lemma score_text_eq:
  "str_format (prepare SCORE_text) [PyInt total_score, PyInt total_rank, PyStr user_id] =
     Inr (str_join CRLF (score_text_lines user_id total_score total_rank))"
  by (simp add: template_defs lines_defs eval_simps del: eval_del)

lemma score_html_eq:
  "str_format (prepare SCORE_html) [PyInt total_score, PyInt total_rank, PyStr user_id] =
     Inr (str_join CRLF (score_html_lines user_id total_score total_rank))"
  by (simp add: template_defs lines_defs eval_simps del: eval_del)

section \<open>Joined lines\<close>

lemma join_Cons: "ls \<noteq> [] \<Longrightarrow> str_join sep (l # ls) = l @ sep @ str_join sep ls"
  by (cases ls) simp_all

lemma join_append:
  "xs \<noteq> [] \<Longrightarrow> ys \<noteq> [] \<Longrightarrow> str_join sep (xs @ ys) = str_join sep xs @ sep @ str_join sep ys"
proof (induction xs)
  case (Cons x xs)
  then show ?case
    by (cases "xs = []") (simp_all add: join_Cons)
qed simp

lemma join_suffix: "ys \<noteq> [] \<Longrightarrow> suffix (str_join sep ys) (str_join sep (xs @ ys))"
proof (cases "xs = []")
  case False
  assume "ys \<noteq> []"
  with False have "str_join sep (xs @ ys) = (str_join sep xs @ sep) @ str_join sep ys"
    by (simp add: join_append)
  then show ?thesis
    unfolding suffix_def by blast
qed simp

lemma sublist_trans: "sublist xs ys \<Longrightarrow> sublist ys zs \<Longrightarrow> sublist xs zs"
proof -
  assume "sublist xs ys" and "sublist ys zs"
  then obtain a b c d where "ys = a @ xs @ b" and "zs = c @ ys @ d"
    unfolding sublist_def by blast
  then have "zs = (c @ a) @ xs @ (b @ d)"
    by simp
  then show ?thesis
    unfolding sublist_def by blast
qed

lemma join_sublist: "sublist (str_join sep ys) (str_join sep (xs @ ys @ zs))"
proof (cases "ys = []")
  case True
  then show ?thesis by simp
next
  case ys: False
  have mid: "sublist (str_join sep ys) (str_join sep (ys @ zs))"
  proof (cases "zs = []")
    case False
    with ys show ?thesis by (simp add: join_append)
  qed simp
  show ?thesis
  proof (cases "xs = []")
    case False
    with ys have "str_join sep (xs @ ys @ zs) = (str_join sep xs @ sep) @ str_join sep (ys @ zs)"
      by (simp add: join_append)
    moreover have "sublist (str_join sep (ys @ zs)) ((str_join sep xs @ sep) @ str_join sep (ys @ zs))"
      by (rule sublist_append_leftI)
    ultimately have "sublist (str_join sep (ys @ zs)) (str_join sep (xs @ ys @ zs))"
      by (simp only:)
    with mid show ?thesis
      by (rule sublist_trans)
  qed (simp add: mid)
qed

lemma join_member_sublist:
  assumes "l \<in> set ls" and "sublist p l"
  shows "sublist p (str_join sep ls)"
proof -
  from assms(1) obtain xs zs where "ls = xs @ l # zs"
    by (auto simp: in_set_conv_decomp)
  then have "ls = xs @ [l] @ zs"
    by simp
  then have "sublist (str_join sep [l]) (str_join sep ls)"
    by (simp only: join_sublist)
  then have "sublist l (str_join sep ls)"
    by simp
  with assms(2) show ?thesis
    by (rule sublist_trans)
qed

lemma join_last_suffix:
  assumes "ls = xs @ [l]" and "suffix p l"
  shows "suffix p (str_join sep ls)"
proof -
  have "suffix (str_join sep [l]) (str_join sep (xs @ [l]))"
    by (rule join_suffix) simp
  with assms(1) have "suffix l (str_join sep ls)"
    by simp
  with assms(2) show ?thesis
    by (rule suffix_order.trans)
qed

lemma unsubscribe_text_user:
  "suffix (''user='' @ user_id) (str_join CRLF (unsubscribe_text_lines user_id))"
proof (rule join_last_suffix)
  show "unsubscribe_text_lines user_id =
          take 5 (unsubscribe_text_lines user_id) @
          [''Unsubscribe: https://delphi.cmu.edu/crowdcast/preferences.php?'' @ ''user='' @ user_id]"
    by (simp add: unsubscribe_text_lines_def)
  show "suffix (''user='' @ user_id)
          (''Unsubscribe: https://delphi.cmu.edu/crowdcast/preferences.php?'' @ ''user='' @ user_id)"
    by (rule suffixI) (rule refl)
qed

lemma unsubscribe_html_user:
  "sublist (''user='' @ user_id) (str_join CRLF (unsubscribe_html_lines user_id))"
proof (rule join_member_sublist)
  show \<open>''<a href="https://delphi.cmu.edu/crowdcast/preferences.php?'' @ (''user='' @ user_id) @ ''">''
          \<in> set (unsubscribe_html_lines user_id)\<close>
    by (simp add: unsubscribe_html_lines_def)
  show \<open>sublist (''user='' @ user_id)
          (''<a href="https://delphi.cmu.edu/crowdcast/preferences.php?'' @ (''user='' @ user_id) @ ''">'')\<close>
    by (rule sublist_appendI)
qed
section \<open>Stripping, splitting and \<open>prepare\<close>\<close>

lemma isspace_CR: "isspace CR" and isspace_LF: "isspace LF" and CR_neq_LF: "CR \<noteq> LF"
  by (simp_all add: isspace_def CR_def LF_def)

lemma rstrip_all_space: "(\<forall>c \<in> set s. isspace c) \<Longrightarrow> str_rstrip s = []"
  by (induction s) simp_all

lemma rstrip_cons_nonempty: "r \<noteq> [] \<Longrightarrow> rstrip_cons c r = c # r"
  by (cases r) simp_all

lemma rstrip_append:
  "str_rstrip (a @ b) = (if str_rstrip b = [] then str_rstrip a else a @ str_rstrip b)"
  by (induction a) (simp_all add: rstrip_cons_nonempty)

lemma rstrip_id: "s \<noteq> [] \<Longrightarrow> \<not> isspace (last s) \<Longrightarrow> str_rstrip s = s"
proof (induction s)
  case (Cons c s)
  then show ?case
    by (cases s) (auto split: list.splits)
qed simp

lemma rstrip_hd: "str_rstrip s \<noteq> [] \<Longrightarrow> hd (str_rstrip s) = hd s"
  by (cases s; cases "str_rstrip (tl s)") (auto split: if_splits)

lemma rstrip_last: "str_rstrip s \<noteq> [] \<Longrightarrow> \<not> isspace (last (str_rstrip s))"
proof (induction s)
  case (Cons c s)
  then show ?case
    by (cases "str_rstrip s") (auto split: if_splits)
qed simp

lemma lstrip_hd: "str_lstrip s \<noteq> [] \<Longrightarrow> \<not> isspace (hd (str_lstrip s))"
  unfolding str_lstrip_def by (rule hd_dropWhile)

lemma lstrip_id: "s = [] \<or> \<not> isspace (hd s) \<Longrightarrow> str_lstrip s = s"
  by (cases s) (auto simp: str_lstrip_def)

lemma stripped_strip: "stripped (str_strip s)"
proof (cases "str_strip s = []")
  case False
  then have r: "str_rstrip (str_lstrip s) \<noteq> []"
    by (simp add: str_strip_def)
  then have "str_lstrip s \<noteq> []"
    by auto
  with r show ?thesis
    by (simp add: stripped_def str_strip_def rstrip_hd rstrip_last lstrip_hd)
qed (simp add: stripped_def)

lemma strip_stripped: "stripped s \<Longrightarrow> str_strip s = s"
proof (cases "s = []")
  case False
  assume "stripped s"
  with False have "\<not> isspace (hd s)" and "\<not> isspace (last s)"
    by (simp_all add: stripped_def)
  with False show ?thesis
    by (simp add: str_strip_def lstrip_id rstrip_id)
qed (simp add: str_strip_def str_lstrip_def)

lemma strip_idem: "str_strip (str_strip s) = str_strip s"
  by (rule strip_stripped) (rule stripped_strip)

lemma set_rstrip: "set (str_rstrip s) \<subseteq> set s"
proof (induction s)
  case (Cons c s)
  then show ?case
    by (cases "str_rstrip s") auto
qed simp

lemma set_strip: "set (str_strip s) \<subseteq> set s"
proof -
  have "set (str_lstrip s) \<subseteq> set s"
    by (auto simp: str_lstrip_def dest: set_dropWhileD)
  with set_rstrip [of "str_lstrip s"] show ?thesis
    by (auto simp: str_strip_def)
qed

lemma lstrip_join:
  assumes "\<forall>c \<in> set sep. isspace c" and "\<forall>l \<in> set ls. stripped l"
  shows "str_lstrip (str_join sep ls) = str_join sep (dropWhile (\<lambda>l. l = []) ls)"
  using assms(2)
proof (induction ls)
  case (Cons l ls)
  show ?case
  proof (cases "l = []")
    case True
    have "str_lstrip (sep @ str_join sep ls) = str_lstrip (str_join sep ls)"
      using assms(1) by (simp add: str_lstrip_def dropWhile_append2)
    with True Cons show ?thesis
      by (cases ls) (simp_all add: str_lstrip_def)
  next
    case False
    with Cons.prems have "\<not> isspace (hd l)"
      by (simp add: stripped_def)
    with False have keep: "str_lstrip (l @ r) = l @ r" for r
      by (cases l) (simp_all add: str_lstrip_def)
    from keep [of "[]"] False show ?thesis
      by (cases ls) (simp_all add: keep)
  qed
qed (simp add: str_lstrip_def)

lemma rstrip_join:
  assumes "\<forall>c \<in> set sep. isspace c" and "\<forall>l \<in> set ls. stripped l"
  shows "str_rstrip (str_join sep ls) = str_join sep (rev (dropWhile (\<lambda>l. l = []) (rev ls)))"
  using assms(2)
proof (induction ls rule: rev_induct)
  case (snoc l xs)
  have sep: "str_rstrip sep = []"
    using assms(1) by (rule rstrip_all_space)
  have l: "l \<noteq> [] \<Longrightarrow> str_rstrip l = l"
    using snoc.prems by (simp add: stripped_def rstrip_id)
  show ?case
  proof (cases "xs = []")
    case True
    with l show ?thesis
      by (cases "l = []") simp_all
  next
    case False
    then have j: "str_join sep (xs @ [l]) = str_join sep xs @ sep @ l"
      by (simp add: join_append)
    show ?thesis
    proof (cases "l = []")
      case True
      with j sep snoc show ?thesis
        by (simp add: rstrip_append)
    next
      case False
      with j sep l show ?thesis
        by (simp add: rstrip_append)
    qed
  qed
qed simp

lemma strip_join:
  assumes "\<forall>c \<in> set sep. isspace c" and "\<forall>l \<in> set ls. stripped l"
  shows "str_strip (str_join sep ls) = str_join sep (trim_blank ls)"
proof -
  have "\<forall>l \<in> set (dropWhile (\<lambda>l. l = []) ls). stripped l"
    using assms(2) by (auto dest: set_dropWhileD)
  with assms(1) show ?thesis
    by (simp add: str_strip_def trim_blank_def lstrip_join [OF assms] rstrip_join)
qed

lemma set_trim_blank: "set (trim_blank ls) \<subseteq> set ls"
  by (auto simp: trim_blank_def dest!: set_dropWhileD)

lemma field_cons_nonempty: "field_cons c fs \<noteq> []"
  by (cases fs) simp_all

lemma split_nonempty: "str_split sep s \<noteq> []"
  by (cases s) (simp_all add: field_cons_nonempty)

lemma split_no_sep: "l \<in> set (str_split sep s) \<Longrightarrow> sep \<notin> set l"
proof (induction s arbitrary: l)
  case (Cons c s)
  then show ?case
    by (cases "str_split sep s") (auto split: if_splits)
qed simp

lemma split_plain: "sep \<notin> set l \<Longrightarrow> str_split sep l = [l]"
  by (induction l) auto

lemma split_append: "sep \<notin> set l \<Longrightarrow> str_split sep (l @ sep # rest) = l # str_split sep rest"
  by (induction l) auto

lemma split_join_crlf:
  assumes "ls \<noteq> []" and "\<forall>l \<in> set ls. LF \<notin> set l"
  shows "str_split LF (str_join CRLF ls) = map (\<lambda>l. l @ [CR]) (butlast ls) @ [last ls]"
  using assms
proof (induction ls)
  case (Cons l ls)
  show ?case
  proof (cases "ls = []")
    case True
    with Cons.prems show ?thesis
      by (simp add: split_plain)
  next
    case False
    then have j: "str_join CRLF (l # ls) = (l @ [CR]) @ LF # str_join CRLF ls"
      by (simp add: join_Cons CRLF_def)
    have "LF \<notin> set (l @ [CR])"
      using Cons.prems CR_neq_LF by auto
    then have "str_split LF ((l @ [CR]) @ LF # str_join CRLF ls) =
                 (l @ [CR]) # str_split LF (str_join CRLF ls)"
      by (rule split_append)
    with j have "str_split LF (str_join CRLF (l # ls)) = (l @ [CR]) # str_split LF (str_join CRLF ls)"
      by (simp only:)
    with False Cons show ?thesis
      by simp
  qed
qed simp

lemma crlf_space: "\<forall>c \<in> set CRLF. isspace c"
  by (simp add: CRLF_def isspace_CR isspace_LF)

lemma prepare_as_join:
  "prepare s = str_join CRLF (trim_blank (map str_strip (str_split LF s)))"
  unfolding prepare_def by (rule strip_join) (simp_all add: crlf_space stripped_strip)

lemma prepared_lines:
  assumes "l \<in> set (trim_blank (map str_strip (str_split LF s)))"
  shows "stripped l" and "LF \<notin> set l"
proof -
  from assms obtain f where f: "f \<in> set (str_split LF s)" and l: "l = str_strip f"
    using set_trim_blank by fastforce
  from l show "stripped l"
    by (simp add: stripped_strip)
  from f have "LF \<notin> set f"
    by (rule split_no_sep)
  with l set_strip [of f] show "LF \<notin> set l"
    by auto
qed

lemma strip_snoc_CR: "stripped l \<Longrightarrow> str_strip (l @ [CR]) = l"
proof (cases "l = []")
  case True
  then show ?thesis
    by (simp add: str_strip_def str_lstrip_def isspace_CR)
next
  case False
  assume "stripped l"
  with False have "\<not> isspace (hd l)" and "\<not> isspace (last l)"
    by (simp_all add: stripped_def)
  with False show ?thesis
    by (simp add: str_strip_def lstrip_id rstrip_append isspace_CR rstrip_id)
qed

lemma line_normalized_prepare: "line_normalized (prepare s)"
proof -
  have "str_strip (prepare s) = prepare s"
    by (simp add: prepare_def strip_idem)
  moreover have "\<forall>l \<in> set (trim_blank (map str_strip (str_split LF s))). LF \<notin> set l \<and> str_strip l = l"
    using prepared_lines by (auto simp: strip_stripped)
  ultimately show ?thesis
    unfolding line_normalized_def using prepare_as_join by blast
qed

section \<open>Where a pattern can occur in a body\<close>

text \<open>
  A pattern cannot start at a character that differs from its first one, and it cannot
  run across a character that it does not hold. Decimal renderings hold digits and the
  minus sign only.
\<close>

lemma sublist_skip: "a \<noteq> c \<Longrightarrow> sublist (a # ps) (c # r) = sublist (a # ps) r"
  by (simp add: sublist_Cons_right)

lemma sublist_split:
  assumes "c \<notin> set p"
  shows "sublist p (v @ c # r) = (sublist p v \<or> sublist p r)"
proof
  assume "sublist p (v @ c # r)"
  then obtain a b where eq: "v @ c # r = a @ p @ b"
    unfolding sublist_def by blast
  then obtain us where "(v = a @ us \<and> us @ c # r = p @ b) \<or> (v @ us = a \<and> c # r = us @ p @ b)"
    unfolding append_eq_append_conv2 by blast
  then show "sublist p v \<or> sublist p r"
  proof
    assume 1: "v = a @ us \<and> us @ c # r = p @ b"
    then obtain ws where "(us = p @ ws \<and> ws @ c # r = b) \<or> (us @ ws = p \<and> c # r = ws @ b)"
      unfolding append_eq_append_conv2 by blast
    then show ?thesis
    proof
      assume "us = p @ ws \<and> ws @ c # r = b"
      with 1 have "v = a @ p @ ws"
        by simp
      then show ?thesis
        unfolding sublist_def by blast
    next
      assume 2: "us @ ws = p \<and> c # r = ws @ b"
      show ?thesis
      proof (cases ws)
        case Nil
        with 1 2 have "v = a @ p @ []"
          by simp
        then show ?thesis
          unfolding sublist_def by blast
      next
        case (Cons w ws')
        with 2 have "c \<in> set p"
          by auto
        with assms show ?thesis
          by simp
      qed
    qed
  next
    assume 3: "v @ us = a \<and> c # r = us @ p @ b"
    show ?thesis
    proof (cases us)
      case Nil
      with 3 have "c # r = p @ b"
        by simp
      with assms have "p = []"
        by (cases p) auto
      then show ?thesis
        by simp
    next
      case (Cons w us')
      with 3 have "r = us' @ p @ b"
        by simp
      then show ?thesis
        unfolding sublist_def by blast
    qed
  qed
next
  assume "sublist p v \<or> sublist p r"
  then show "sublist p (v @ c # r)"
  proof
    assume "sublist p v"
    then obtain a b where "v = a @ p @ b"
      unfolding sublist_def by blast
    then have "v @ c # r = a @ p @ (b @ c # r)"
      by simp
    then show ?thesis
      unfolding sublist_def by blast
  next
    assume "sublist p r"
    then obtain a b where "r = a @ p @ b"
      unfolding sublist_def by blast
    then have "v @ c # r = (v @ c # a) @ p @ b"
      by simp
    then show ?thesis
      unfolding sublist_def by blast
  qed
qed


lemma digit_char_in: "d < 10 \<Longrightarrow> digit_char d \<in> set ''0123456789''"
  unfolding digit_char_def by (rule nth_mem) simp

lemma str_nat_chars: "set (str_nat n) \<subseteq> set ''0123456789''"
proof -
  define D where "D = set ''0123456789''"
  have d: "digit_char k \<in> D" if "k < 10" for k
    using that digit_char_in unfolding D_def by blast
  have "set (str_nat n) \<subseteq> D"
  proof (induction n rule: str_nat.induct)
    case (1 n)
    show ?case
    proof (cases "n < 10")
      case True
      then have "str_nat n = [digit_char n]"
        by (subst str_nat.simps) simp
      with d [OF True] show ?thesis
        by simp
    next
      case False
      then have "str_nat n = str_nat (n div 10) @ [digit_char (n mod 10)]"
        by (subst str_nat.simps) simp
      moreover have "digit_char (n mod 10) \<in> D"
        by (rule d) simp
      moreover have "set (str_nat (n div 10)) \<subseteq> D"
        using False by (rule "1.IH")
      ultimately show ?thesis
        by simp
    qed
  qed
  then show ?thesis
    unfolding D_def .
qed

lemma str_int_chars: "set (str_int i) \<subseteq> set ''-0123456789''"
proof -
  have "set ''0123456789'' \<subseteq> set ''-0123456789''"
    by (rule set_subset_Cons)
  with str_nat_chars have sub: "set (str_nat k) \<subseteq> set ''-0123456789''" for k
    by (rule order_trans)
  have minus: "CHR ''-'' \<in> set ''-0123456789''"
    by (rule list.set_intros(1))
  show ?thesis
  proof (cases "i < 0")
    case True
    then have "str_int i = CHR ''-'' # str_nat (nat (- i))"
      by (simp add: str_int_def)
    with sub [of "nat (- i)"] minus show ?thesis
      by (simp only: set_simps insert_subset)
  next
    case False
    then have "str_int i = str_nat (nat i)"
      by (simp add: str_int_def)
    with sub [of "nat i"] show ?thesis
      by (simp only:)
  qed
qed

lemma not_in_str_int: "c \<notin> set ''-0123456789'' \<Longrightarrow> c \<notin> set (str_int i)"
  using str_int_chars [of i] by (rule contra_subsetD)

lemma sublist_str_int:
  assumes "a \<notin> set ''-0123456789''"
  shows "sublist (a # ps) (str_int i) = False"
proof -
  have "a \<notin> set (str_int i)"
    using assms by (rule not_in_str_int)
  moreover have "a \<in> set (str_int i)" if "sublist (a # ps) (str_int i)"
    using set_mono_sublist [OF that] by simp
  ultimately show ?thesis
    by blast
qed

lemmas marker_simps =
  lines_defs CRLF_def CR_def LF_def sublist_skip sublist_split sublist_str_int

lemmas marker_del = prefix_imp_sublist suffix_imp_sublist

lemma alert_text_markers:
  "sublist ''%s'' (str_join CRLF (alert_text_lines u n)) = (sublist ''%s'' n \<or> sublist ''%s'' u)"
  "sublist ''%d'' (str_join CRLF (alert_text_lines u n)) = (sublist ''%d'' n \<or> sublist ''%d'' u)"
  "sublist ''{SCORE}'' (str_join CRLF (alert_text_lines u n)) = (sublist ''{SCORE}'' n \<or> sublist ''{SCORE}'' u)"
  by (simp_all add: marker_simps del: marker_del)

lemma alert_html_markers:
  "sublist ''%s'' (str_join CRLF (alert_html_lines u n)) = (sublist ''%s'' n \<or> sublist ''%s'' u)"
  "sublist ''%d'' (str_join CRLF (alert_html_lines u n)) = (sublist ''%d'' n \<or> sublist ''%d'' u)"
  "sublist ''{SCORE}'' (str_join CRLF (alert_html_lines u n)) = (sublist ''{SCORE}'' n \<or> sublist ''{SCORE}'' u)"
  by (simp_all add: marker_simps del: marker_del)

lemma reminder_text_markers:
  "sublist ''%s'' (str_join CRLF (reminder_text_lines u n)) = (sublist ''%s'' n \<or> sublist ''%s'' u)"
  "sublist ''%d'' (str_join CRLF (reminder_text_lines u n)) = (sublist ''%d'' n \<or> sublist ''%d'' u)"
  "sublist ''{SCORE}'' (str_join CRLF (reminder_text_lines u n)) = (sublist ''{SCORE}'' n \<or> sublist ''{SCORE}'' u)"
  by (simp_all add: marker_simps del: marker_del)

lemma reminder_html_markers:
  "sublist ''%s'' (str_join CRLF (reminder_html_lines u n)) = (sublist ''%s'' n \<or> sublist ''%s'' u)"
  "sublist ''%d'' (str_join CRLF (reminder_html_lines u n)) = (sublist ''%d'' n \<or> sublist ''%d'' u)"
  "sublist ''{SCORE}'' (str_join CRLF (reminder_html_lines u n)) = (sublist ''{SCORE}'' n \<or> sublist ''{SCORE}'' u)"
  by (simp_all add: marker_simps del: marker_del)

lemma notification_text_markers:
  "sublist ''%s'' (str_join CRLF (notification_text_lines u n)) = (sublist ''%s'' n \<or> sublist ''%s'' u)"
  "sublist ''%d'' (str_join CRLF (notification_text_lines u n)) = (sublist ''%d'' n \<or> sublist ''%d'' u)"
  "sublist ''{SCORE}'' (str_join CRLF (notification_text_lines u n)) = (sublist ''{SCORE}'' n \<or> sublist ''{SCORE}'' u)"
  "sublist ''Your overall score is'' (str_join CRLF (notification_text_lines u n)) = (sublist ''Your overall score is'' n \<or> sublist ''Your overall score is'' u)"
  by (simp_all add: marker_simps del: marker_del)

lemma notification_html_markers:
  "sublist ''%s'' (str_join CRLF (notification_html_lines u n)) = (sublist ''%s'' n \<or> sublist ''%s'' u)"
  "sublist ''%d'' (str_join CRLF (notification_html_lines u n)) = (sublist ''%d'' n \<or> sublist ''%d'' u)"
  "sublist ''{SCORE}'' (str_join CRLF (notification_html_lines u n)) = (sublist ''{SCORE}'' n \<or> sublist ''{SCORE}'' u)"
  "sublist ''Your overall score is'' (str_join CRLF (notification_html_lines u n)) = (sublist ''Your overall score is'' n \<or> sublist ''Your overall score is'' u)"
  by (simp_all add: marker_simps del: marker_del)

lemma notification_score_text_markers:
  "sublist ''%s'' (str_join CRLF (notification_score_text_lines u n ts tr)) = (sublist ''%s'' n \<or> sublist ''%s'' u)"
  "sublist ''%d'' (str_join CRLF (notification_score_text_lines u n ts tr)) = (sublist ''%d'' n \<or> sublist ''%d'' u)"
  "sublist ''{SCORE}'' (str_join CRLF (notification_score_text_lines u n ts tr)) = (sublist ''{SCORE}'' n \<or> sublist ''{SCORE}'' u)"
  by (simp_all add: marker_simps del: marker_del)

lemma notification_score_html_markers:
  "sublist ''%s'' (str_join CRLF (notification_score_html_lines u n ts tr)) = (sublist ''%s'' n \<or> sublist ''%s'' u)"
  "sublist ''%d'' (str_join CRLF (notification_score_html_lines u n ts tr)) = (sublist ''%d'' n \<or> sublist ''%d'' u)"
  "sublist ''{SCORE}'' (str_join CRLF (notification_score_html_lines u n ts tr)) = (sublist ''{SCORE}'' n \<or> sublist ''{SCORE}'' u)"
  by (simp_all add: marker_simps del: marker_del)

section \<open>Line-normalized bodies\<close>

lemma line_normalized_join:
  assumes "ls \<noteq> []" and "hd ls \<noteq> []" and "last ls \<noteq> []"
    and "list_all (\<lambda>l. stripped l \<and> LF \<notin> set l) ls"
  shows "line_normalized (str_join CRLF ls)"
proof -
  from assms(4) have all: "\<forall>l \<in> set ls. stripped l" and lf: "\<forall>l \<in> set ls. LF \<notin> set l"
    by (simp_all add: list_all_iff)
  from assms(1,2) have front: "dropWhile (\<lambda>l. l = []) ls = ls"
    by (cases ls) simp_all
  from assms(1,3) have "dropWhile (\<lambda>l. l = []) (rev ls) = rev ls"
    by (cases "rev ls") (simp_all add: last_rev [symmetric] del: last_rev)
  with front have "trim_blank ls = ls"
    by (simp add: trim_blank_def)
  with all have "str_strip (str_join CRLF ls) = str_join CRLF ls"
    by (simp add: strip_join crlf_space)
  moreover from all lf have "\<forall>l \<in> set ls. LF \<notin> set l \<and> str_strip l = l"
    by (simp add: strip_stripped)
  ultimately show ?thesis
    unfolding line_normalized_def by blast
qed

lemma stripped_Nil: "stripped []"
  by (simp add: stripped_def)

lemma stripped_Cons: "stripped (c # cs) = (\<not> isspace c \<and> \<not> isspace (last (c # cs)))"
  by (simp add: stripped_def)

lemma last_single: "last [x] = x"
  by simp

lemma last_Cons2: "last (x # y # ys) = last (y # ys)"
  by simp

lemma last_Cons_append: "last (x # v @ y # ys) = last (y # ys)"
  by simp

lemma last_Cons_var: "v \<noteq> [] \<Longrightarrow> last (x # v) = last v"
  by simp

lemma trailing_space_not_stripped: "s \<noteq> [] \<Longrightarrow> isspace (last s) \<Longrightarrow> str_strip s \<noteq> s"
  using stripped_strip [of s] by (auto simp: stripped_def)

lemmas normal_simps =
  lines_defs stripped_Nil stripped_Cons last_single last_Cons2 last_Cons_append last_Cons_var
  isspace_def LF_def not_in_str_int

lemmas normal_del = last.simps

lemma alert_text_normalized:
  assumes "LF \<notin> set n" and "LF \<notin> set u" and "u \<noteq> []" and "\<not> isspace (last u)"
  shows "line_normalized (str_join CRLF (alert_text_lines u n))"
  by (rule line_normalized_join) (use assms in \<open>simp_all add: normal_simps del: normal_del\<close>)

lemma alert_html_normalized:
  assumes "LF \<notin> set n" and "LF \<notin> set u" and "u \<noteq> []" and "\<not> isspace (last u)"
  shows "line_normalized (str_join CRLF (alert_html_lines u n))"
  by (rule line_normalized_join) (use assms in \<open>simp_all add: normal_simps del: normal_del\<close>)

lemma reminder_text_normalized:
  assumes "LF \<notin> set n" and "LF \<notin> set u" and "u \<noteq> []" and "\<not> isspace (last u)"
  shows "line_normalized (str_join CRLF (reminder_text_lines u n))"
  by (rule line_normalized_join) (use assms in \<open>simp_all add: normal_simps del: normal_del\<close>)

lemma reminder_html_normalized:
  assumes "LF \<notin> set n" and "LF \<notin> set u" and "u \<noteq> []" and "\<not> isspace (last u)"
  shows "line_normalized (str_join CRLF (reminder_html_lines u n))"
  by (rule line_normalized_join) (use assms in \<open>simp_all add: normal_simps del: normal_del\<close>)

lemma notification_text_normalized:
  assumes "LF \<notin> set n" and "LF \<notin> set u" and "u \<noteq> []" and "\<not> isspace (last u)"
  shows "line_normalized (str_join CRLF (notification_text_lines u n))"
  by (rule line_normalized_join) (use assms in \<open>simp_all add: normal_simps del: normal_del\<close>)

lemma notification_html_normalized:
  assumes "LF \<notin> set n" and "LF \<notin> set u" and "u \<noteq> []" and "\<not> isspace (last u)"
  shows "line_normalized (str_join CRLF (notification_html_lines u n))"
  by (rule line_normalized_join) (use assms in \<open>simp_all add: normal_simps del: normal_del\<close>)

lemma notification_score_text_normalized:
  assumes "LF \<notin> set n" and "LF \<notin> set u" and "u \<noteq> []" and "\<not> isspace (last u)"
  shows "line_normalized (str_join CRLF (notification_score_text_lines u n ts tr))"
  by (rule line_normalized_join) (use assms in \<open>simp_all add: normal_simps del: normal_del\<close>)

lemma notification_score_html_normalized:
  assumes "LF \<notin> set n" and "LF \<notin> set u" and "u \<noteq> []" and "\<not> isspace (last u)"
  shows "line_normalized (str_join CRLF (notification_score_html_lines u n ts tr))"
  by (rule line_normalized_join) (use assms in \<open>simp_all add: normal_simps del: normal_del\<close>)

section \<open>The score marker and the score section\<close>

lemma notification_text_splice:
  "NOTIFICATION_text = take 508 NOTIFICATION_text @ ''{SCORE}'' @ drop 515 NOTIFICATION_text"
  "str_replace NOTIFICATION_text ''{SCORE}'' x =
     take 508 NOTIFICATION_text @ x @ drop 515 NOTIFICATION_text"
  by (simp_all add: NOTIFICATION_text_def str_replace_def replace_skip replace_hit
      del: str_replace_from.simps(2))

lemma notification_html_splice:
  "NOTIFICATION_html = take 658 NOTIFICATION_html @ ''{SCORE}'' @ drop 665 NOTIFICATION_html"
  "str_replace NOTIFICATION_html ''{SCORE}'' x =
     take 658 NOTIFICATION_html @ x @ drop 665 NOTIFICATION_html"
  by (simp_all add: NOTIFICATION_html_def str_replace_def replace_skip replace_hit
      del: str_replace_from.simps(2))

lemma score_section_text:
  "sublist (str_join CRLF (score_text_lines u ts tr))
     (str_join CRLF (notification_score_text_lines u n ts tr))"
  unfolding notification_score_text_lines_def by (rule join_sublist)

lemma score_section_html:
  "sublist (str_join CRLF (score_html_lines u ts tr))
     (str_join CRLF (notification_score_html_lines u n ts tr))"
  unfolding notification_score_html_lines_def by (rule join_sublist)

lemma score_text_values:
  "sublist (''Your overall score is: '' @ str_int ts @ '' (ranked #'' @ str_int tr @ '')'')
     (str_join CRLF (score_text_lines u ts tr))"
  "sublist (''preferences.php?user='' @ u) (str_join CRLF (score_text_lines u ts tr))"
proof -
  show "sublist (''Your overall score is: '' @ str_int ts @ '' (ranked #'' @ str_int tr @ '')'')
     (str_join CRLF (score_text_lines u ts tr))"
    by (rule join_member_sublist [where l = "''Your overall score is: '' @ str_int ts @ '' (ranked #'' @ str_int tr @ '')''"])
      (simp_all add: score_text_lines_def)
  show "sublist (''preferences.php?user='' @ u) (str_join CRLF (score_text_lines u ts tr))"
  proof (rule join_member_sublist)
    show "''https://delphi.cmu.edu/crowdcast/'' @ (''preferences.php?user='' @ u)
            \<in> set (score_text_lines u ts tr)"
      by (simp add: score_text_lines_def)
    show "sublist (''preferences.php?user='' @ u)
            (''https://delphi.cmu.edu/crowdcast/'' @ (''preferences.php?user='' @ u))"
      by (rule sublist_append_leftI)
  qed
qed

lemma score_html_values:
  "sublist (''Your overall score is: '' @ str_int ts @ '' (<i>ranked #'' @ str_int tr @ ''</i>)'')
     (str_join CRLF (score_html_lines u ts tr))"
  "sublist (''preferences.php?user='' @ u) (str_join CRLF (score_html_lines u ts tr))"
proof -
  show "sublist (''Your overall score is: '' @ str_int ts @ '' (<i>ranked #'' @ str_int tr @ ''</i>)'')
     (str_join CRLF (score_html_lines u ts tr))"
    by (rule join_member_sublist [where l = "''Your overall score is: '' @ str_int ts @ '' (<i>ranked #'' @ str_int tr @ ''</i>)''"])
      (simp_all add: score_html_lines_def)
  show "sublist (''preferences.php?user='' @ u) (str_join CRLF (score_html_lines u ts tr))"
  proof (rule join_member_sublist)
    show \<open>''href="https://delphi.cmu.edu/crowdcast/'' @ (''preferences.php?user='' @ u) @ ''">''
            \<in> set (score_html_lines u ts tr)\<close>
      by (simp add: score_html_lines_def)
    show \<open>sublist (''preferences.php?user='' @ u)
            (''href="https://delphi.cmu.edu/crowdcast/'' @ (''preferences.php?user='' @ u) @ ''">'')\<close>
      by (rule sublist_appendI)
  qed
qed

lemma result_exI:
  "r = Inr (s, t, h) \<Longrightarrow> P t \<Longrightarrow> Q h \<Longrightarrow> \<exists>s t h. r = Inr (s, t, h) \<and> P t \<and> Q h"
  by blast

lemma all_markers:
  assumes "m \<in> {''%s'', ''%d'', ''{SCORE}''}"
  shows "sublist m (str_join CRLF (alert_text_lines u n)) = (sublist m n \<or> sublist m u)"
    and "sublist m (str_join CRLF (alert_html_lines u n)) = (sublist m n \<or> sublist m u)"
    and "sublist m (str_join CRLF (reminder_text_lines u n)) = (sublist m n \<or> sublist m u)"
    and "sublist m (str_join CRLF (reminder_html_lines u n)) = (sublist m n \<or> sublist m u)"
    and "sublist m (str_join CRLF (notification_text_lines u n)) = (sublist m n \<or> sublist m u)"
    and "sublist m (str_join CRLF (notification_html_lines u n)) = (sublist m n \<or> sublist m u)"
    and "sublist m (str_join CRLF (notification_score_text_lines u n ts tr)) =
           (sublist m n \<or> sublist m u)"
    and "sublist m (str_join CRLF (notification_score_html_lines u n ts tr)) =
           (sublist m n \<or> sublist m u)"
proof -
  from assms consider "m = ''%s''" | "m = ''%d''" | "m = ''{SCORE}''"
    by blast
  then have
    "sublist m (str_join CRLF (alert_text_lines u n)) = (sublist m n \<or> sublist m u) \<and>
     sublist m (str_join CRLF (alert_html_lines u n)) = (sublist m n \<or> sublist m u) \<and>
     sublist m (str_join CRLF (reminder_text_lines u n)) = (sublist m n \<or> sublist m u) \<and>
     sublist m (str_join CRLF (reminder_html_lines u n)) = (sublist m n \<or> sublist m u) \<and>
     sublist m (str_join CRLF (notification_text_lines u n)) = (sublist m n \<or> sublist m u) \<and>
     sublist m (str_join CRLF (notification_html_lines u n)) = (sublist m n \<or> sublist m u) \<and>
     sublist m (str_join CRLF (notification_score_text_lines u n ts tr)) =
       (sublist m n \<or> sublist m u) \<and>
     sublist m (str_join CRLF (notification_score_html_lines u n ts tr)) =
       (sublist m n \<or> sublist m u)"
    by cases
      (simp_all only: alert_text_markers alert_html_markers reminder_text_markers
        reminder_html_markers notification_text_markers notification_html_markers
        notification_score_text_markers notification_score_html_markers simp_thms)
  then show
    "sublist m (str_join CRLF (alert_text_lines u n)) = (sublist m n \<or> sublist m u)"
    "sublist m (str_join CRLF (alert_html_lines u n)) = (sublist m n \<or> sublist m u)"
    "sublist m (str_join CRLF (reminder_text_lines u n)) = (sublist m n \<or> sublist m u)"
    "sublist m (str_join CRLF (reminder_html_lines u n)) = (sublist m n \<or> sublist m u)"
    "sublist m (str_join CRLF (notification_text_lines u n)) = (sublist m n \<or> sublist m u)"
    "sublist m (str_join CRLF (notification_html_lines u n)) = (sublist m n \<or> sublist m u)"
    "sublist m (str_join CRLF (notification_score_text_lines u n ts tr)) =
       (sublist m n \<or> sublist m u)"
    "sublist m (str_join CRLF (notification_score_html_lines u n ts tr)) =
       (sublist m n \<or> sublist m u)"
    by simp_all
qed

lemma unsubscribe_lines_nonempty:
  "unsubscribe_text_lines user_id \<noteq> []" "unsubscribe_html_lines user_id \<noteq> []"
  by (simp_all add: unsubscribe_text_lines_def unsubscribe_html_lines_def)

lemma text_lines_end:
  "suffix (str_join CRLF (unsubscribe_text_lines u)) (str_join CRLF (alert_text_lines u n))"
  "suffix (str_join CRLF (unsubscribe_text_lines u)) (str_join CRLF (reminder_text_lines u n))"
  "suffix (str_join CRLF (unsubscribe_text_lines u)) (str_join CRLF (notification_text_lines u n))"
  "suffix (str_join CRLF (unsubscribe_text_lines u))
     (str_join CRLF (notification_score_text_lines u n ts tr))"
  unfolding alert_text_lines_def reminder_text_lines_def notification_text_lines_def
    notification_score_text_lines_def append_assoc [symmetric]
  by (rule join_suffix, rule unsubscribe_lines_nonempty)+

lemma html_lines_end:
  "suffix (str_join CRLF (unsubscribe_html_lines u)) (str_join CRLF (alert_html_lines u n))"
  "suffix (str_join CRLF (unsubscribe_html_lines u)) (str_join CRLF (reminder_html_lines u n))"
  "suffix (str_join CRLF (unsubscribe_html_lines u)) (str_join CRLF (notification_html_lines u n))"
  "suffix (str_join CRLF (unsubscribe_html_lines u))
     (str_join CRLF (notification_score_html_lines u n ts tr))"
  unfolding alert_html_lines_def reminder_html_lines_def notification_html_lines_def
    notification_score_html_lines_def append_assoc [symmetric]
  by (rule join_suffix, rule unsubscribe_lines_nonempty)+

section \<open>The claims\<close>

text \<open>
  C4. Every returned text body ends with the text unsubscribe fragment and every returned
  html body ends with the html unsubscribe fragment, each rendered with the user id of the
  call as its value, so that the fragment's link carries \<open>user=\<close> followed by that id; in
  the text body this is the very end of the body.
\<close>

theorem bodies_end_with_unsubscribe:
  "\<exists>foot_text foot_html.
     str_format (prepare UNSUBSCRIBE_text) [PyStr user_id] = Inr foot_text \<and>
     str_format (prepare UNSUBSCRIBE_html) [PyStr user_id] = Inr foot_html \<and>
     suffix (''user='' @ user_id) foot_text \<and>
     sublist (''user='' @ user_id) foot_html \<and>
     (\<exists>s t h. get_alert user_id user_name = Inr (s, t, h) \<and>
        suffix foot_text t \<and> suffix foot_html h) \<and>
     (\<exists>s t h. get_notification user_id user_name last_score last_rank total_score total_rank
          = Inr (s, t, h) \<and>
        suffix foot_text t \<and> suffix foot_html h) \<and>
     (\<exists>s t h. get_reminder user_id user_name = Inr (s, t, h) \<and>
        suffix foot_text t \<and> suffix foot_html h)"
proof (intro exI conjI)
  show "str_format (prepare UNSUBSCRIBE_text) [PyStr user_id] =
          Inr (str_join CRLF (unsubscribe_text_lines user_id))"
    by (rule unsubscribe_text_eq)
  show "str_format (prepare UNSUBSCRIBE_html) [PyStr user_id] =
          Inr (str_join CRLF (unsubscribe_html_lines user_id))"
    by (rule unsubscribe_html_eq)
  show "suffix (''user='' @ user_id) (str_join CRLF (unsubscribe_text_lines user_id))"
    by (rule unsubscribe_text_user)
  show "sublist (''user='' @ user_id) (str_join CRLF (unsubscribe_html_lines user_id))"
    by (rule unsubscribe_html_user)
  show "get_alert user_id user_name =
          Inr (''[Crowdcast] Crowdcast Needs Your Help'',
               str_join CRLF (alert_text_lines user_id user_name),
               str_join CRLF (alert_html_lines user_id user_name))"
    by (rule get_alert_eq)
  show "suffix (str_join CRLF (unsubscribe_text_lines user_id))
          (str_join CRLF (alert_text_lines user_id user_name))"
    by (rule text_lines_end)
  show "suffix (str_join CRLF (unsubscribe_html_lines user_id))
          (str_join CRLF (alert_html_lines user_id user_name))"
    by (rule html_lines_end)
  let ?t = "if 0 < last_score
            then str_join CRLF (notification_score_text_lines user_id user_name total_score total_rank)
            else str_join CRLF (notification_text_lines user_id user_name)"
  let ?h = "if 0 < last_score
            then str_join CRLF (notification_score_html_lines user_id user_name total_score total_rank)
            else str_join CRLF (notification_html_lines user_id user_name)"
  show "get_notification user_id user_name last_score last_rank total_score total_rank =
          Inr (''[Crowdcast] New Data Available (Deadline: Monday 10 AM)'', ?t, ?h)"
    by (simp add: get_notification_score_eq get_notification_plain_eq)
  show "suffix (str_join CRLF (unsubscribe_text_lines user_id)) ?t"
    by (simp add: text_lines_end)
  show "suffix (str_join CRLF (unsubscribe_html_lines user_id)) ?h"
    by (simp add: html_lines_end)
  show "get_reminder user_id user_name =
          Inr (''[Crowdcast] Forecasts Needed (Deadline: Monday 10AM)'',
               str_join CRLF (reminder_text_lines user_id user_name),
               str_join CRLF (reminder_html_lines user_id user_name))"
    by (rule get_reminder_eq)
  show "suffix (str_join CRLF (unsubscribe_text_lines user_id))
          (str_join CRLF (reminder_text_lines user_id user_name))"
    by (rule text_lines_end)
  show "suffix (str_join CRLF (unsubscribe_html_lines user_id))
          (str_join CRLF (reminder_html_lines user_id user_name))"
    by (rule html_lines_end)
qed

text \<open>
  C5. The subject that each method returns is the subject tag, one space, and the subject
  of the method's template; the character after that space is not a space.
\<close>

theorem subject_is_tag_space_subject:
  "(\<exists>s t h. get_alert user_id user_name = Inr (s, t, h) \<and>
      s = SUBJECT_TAG @ '' '' @ ALERT_subject \<and> hd ALERT_subject \<noteq> CHR '' '') \<and>
   (\<exists>s t h. get_notification user_id user_name last_score last_rank total_score total_rank
        = Inr (s, t, h) \<and>
      s = SUBJECT_TAG @ '' '' @ NOTIFICATION_subject \<and> hd NOTIFICATION_subject \<noteq> CHR '' '') \<and>
   (\<exists>s t h. get_reminder user_id user_name = Inr (s, t, h) \<and>
      s = SUBJECT_TAG @ '' '' @ REMINDER_subject \<and> hd REMINDER_subject \<noteq> CHR '' '')"
proof (intro conjI)
  show "\<exists>s t h. get_alert user_id user_name = Inr (s, t, h) \<and>
      s = SUBJECT_TAG @ '' '' @ ALERT_subject \<and> hd ALERT_subject \<noteq> CHR '' ''"
    by (simp add: get_alert_eq SUBJECT_TAG_def ALERT_subject_def)
  show "\<exists>s t h. get_notification user_id user_name last_score last_rank total_score total_rank
        = Inr (s, t, h) \<and>
      s = SUBJECT_TAG @ '' '' @ NOTIFICATION_subject \<and> hd NOTIFICATION_subject \<noteq> CHR '' ''"
    by (cases "0 < last_score")
      (simp_all add: get_notification_score_eq get_notification_plain_eq
        SUBJECT_TAG_def NOTIFICATION_subject_def)
  show "\<exists>s t h. get_reminder user_id user_name = Inr (s, t, h) \<and>
      s = SUBJECT_TAG @ '' '' @ REMINDER_subject \<and> hd REMINDER_subject \<noteq> CHR '' ''"
    by (simp add: get_reminder_eq SUBJECT_TAG_def REMINDER_subject_def)
qed

text \<open>
  C8. The argument \<open>last_rank\<close> has no effect on what \<open>get_notification\<close> returns.
\<close>

theorem last_rank_unused:
  "get_notification user_id user_name last_score lr1 total_score total_rank =
   get_notification user_id user_name last_score lr2 total_score total_rank"
  unfolding get_notification_def by (rule refl)

text \<open>
  C10. The subject of each method is a constant: it is the same for all arguments.
\<close>

theorem subject_constants:
  "(\<exists>t h. get_alert user_id user_name =
      Inr (''[Crowdcast] Crowdcast Needs Your Help'', t, h)) \<and>
   (\<exists>t h. get_notification user_id user_name last_score last_rank total_score total_rank =
      Inr (''[Crowdcast] New Data Available (Deadline: Monday 10 AM)'', t, h)) \<and>
   (\<exists>t h. get_reminder user_id user_name =
      Inr (''[Crowdcast] Forecasts Needed (Deadline: Monday 10AM)'', t, h))"
  by (cases "0 < last_score")
    (simp_all add: get_alert_eq get_reminder_eq get_notification_score_eq
      get_notification_plain_eq)

text \<open>
  C6. \<open>get_reminder\<close> fills the reminder template with the name and the id for the text
  body and with the name and the id twice for the html body. For the user \<open>u123\<close> named
  \<open>Jane\<close> each body is a main part followed by the rendered unsubscribe fragment; the main
  part of the text body holds \<open>Jane\<close> once and \<open>u123\<close> once, the text fragment ends with
  \<open>user=u123\<close>, and the main part of the html body holds \<open>u123\<close> twice, in the link
  and as the visible id.
\<close>

theorem reminder_values_and_example:
  "get_reminder user_id user_name =
     compose user_id REMINDER_subject REMINDER_text REMINDER_html
       [PyStr user_name, PyStr user_id] [PyStr user_name, PyStr user_id, PyStr user_id] \<and>
   get_reminder user_id user_name =
     Inr (SUBJECT_TAG @ '' '' @ REMINDER_subject,
          str_join CRLF (reminder_text_lines user_id user_name),
          str_join CRLF (reminder_html_lines user_id user_name)) \<and>
   (\<exists>main_text main_html foot_text foot_html.
      get_reminder ''u123'' ''Jane'' =
        Inr (SUBJECT_TAG @ '' '' @ REMINDER_subject, main_text @ foot_text, main_html @ foot_html) \<and>
      str_format (prepare UNSUBSCRIBE_text) [PyStr ''u123''] = Inr foot_text \<and>
      str_format (prepare UNSUBSCRIBE_html) [PyStr ''u123''] = Inr foot_html \<and>
      occurrences ''Jane'' main_text = 1 \<and>
      occurrences ''u123'' main_text = 1 \<and>
      suffix ''user=u123'' foot_text \<and>
      occurrences ''u123'' main_html = 2 \<and>
      sublist ''launch.php?user=u123'' main_html \<and>
      sublist ''User ID: u123'' main_html)"
proof (intro conjI)
  show "get_reminder user_id user_name =
     compose user_id REMINDER_subject REMINDER_text REMINDER_html
       [PyStr user_name, PyStr user_id] [PyStr user_name, PyStr user_id, PyStr user_id]"
    by (simp add: get_reminder_def)
  show "get_reminder user_id user_name =
     Inr (SUBJECT_TAG @ '' '' @ REMINDER_subject,
          str_join CRLF (reminder_text_lines user_id user_name),
          str_join CRLF (reminder_html_lines user_id user_name))"
    by (simp add: get_reminder_eq SUBJECT_TAG_def REMINDER_subject_def)
  let ?mt = "str_join CRLF (take 13 (reminder_text_lines ''u123'' ''Jane'')) @ CRLF"
  let ?mh = "str_join CRLF (take 16 (reminder_html_lines ''u123'' ''Jane'')) @ CRLF"
  let ?ft = "str_join CRLF (unsubscribe_text_lines ''u123'')"
  let ?fh = "str_join CRLF (unsubscribe_html_lines ''u123'')"
  have tx: "str_join CRLF (reminder_text_lines ''u123'' ''Jane'') = ?mt @ ?ft"
    by (simp add: reminder_text_lines_def unsubscribe_text_lines_def)
  have hx: "str_join CRLF (reminder_html_lines ''u123'' ''Jane'') = ?mh @ ?fh"
    by (simp add: reminder_html_lines_def unsubscribe_html_lines_def)
  have 1: "get_reminder ''u123'' ''Jane'' =
        Inr (SUBJECT_TAG @ '' '' @ REMINDER_subject, ?mt @ ?ft, ?mh @ ?fh)"
    by (simp only: get_reminder_eq tx hx SUBJECT_TAG_def REMINDER_subject_def) simp
  have 2: "occurrences ''Jane'' ?mt = 1" "occurrences ''u123'' ?mt = 1"
    by (simp_all add: reminder_text_lines_def CRLF_def CR_def LF_def)
  have 3: "occurrences ''u123'' ?mh = 2"
    by (simp add: reminder_html_lines_def CRLF_def CR_def LF_def)
  have 4: "sublist ''launch.php?user=u123'' ?mh" "sublist ''User ID: u123'' ?mh"
    by (simp_all add: reminder_html_lines_def CRLF_def CR_def LF_def sublist_code)
  have 5: "suffix ''user=u123'' ?ft"
    using unsubscribe_text_user [of "''u123''"] by simp
  from 1 2 3 4 5 unsubscribe_text_eq [of "''u123''"] unsubscribe_html_eq [of "''u123''"]
  show "\<exists>main_text main_html foot_text foot_html.
      get_reminder ''u123'' ''Jane'' =
        Inr (SUBJECT_TAG @ '' '' @ REMINDER_subject, main_text @ foot_text, main_html @ foot_html) \<and>
      str_format (prepare UNSUBSCRIBE_text) [PyStr ''u123''] = Inr foot_text \<and>
      str_format (prepare UNSUBSCRIBE_html) [PyStr ''u123''] = Inr foot_html \<and>
      occurrences ''Jane'' main_text = 1 \<and>
      occurrences ''u123'' main_text = 1 \<and>
      suffix ''user=u123'' foot_text \<and>
      occurrences ''u123'' main_html = 2 \<and>
      sublist ''launch.php?user=u123'' main_html \<and>
      sublist ''User ID: u123'' main_html"
    by blast
qed

text \<open>
  C9. \<open>prepare\<close> is idempotent: preparing a prepared string changes nothing.
\<close>

theorem prepare_idempotent: "prepare (prepare s) = prepare s"
proof -
  define T where "T = trim_blank (map str_strip (str_split LF s))"
  have p: "prepare s = str_join CRLF T"
    by (simp add: prepare_as_join T_def)
  have T: "stripped l" "LF \<notin> set l" if "l \<in> set T" for l
    using that prepared_lines [of l s] by (simp_all add: T_def)
  have "str_join CRLF (map str_strip (str_split LF (str_join CRLF T))) = str_join CRLF T"
  proof (cases "T = []")
    case True
    then show ?thesis
      by (simp add: str_strip_def str_lstrip_def)
  next
    case False
    have "map (str_strip \<circ> (\<lambda>l. l @ [CR])) (butlast T) = butlast T"
      by (rule map_idI) (auto simp: strip_snoc_CR T(1) dest: in_set_butlastD)
    moreover have "str_strip (last T) = last T"
      using False T(1) by (simp add: strip_stripped)
    ultimately have "map str_strip (str_split LF (str_join CRLF T)) = butlast T @ [last T]"
      using False T(2) by (simp add: split_join_crlf)
    with False show ?thesis
      by simp
  qed
  then have "prepare (prepare s) = str_strip (prepare s)"
    by (simp add: p prepare_def [of "str_join CRLF T"])
  then show ?thesis
    by (simp add: prepare_def strip_idem)
qed

text \<open>
  C1 (as stated it fails: the phrase of the score section can come in with the user name;
  the counterexample is a notification without score for a user named
  \<open>Your overall score is\<close>).
  Amended: the marker occurs once in each notification template and \<open>str_replace\<close>
  puts its argument in that place. When \<open>last_score\<close> is positive the templates are
  composed with the score fragment at the marker and the values of the total score, the
  total rank and the user id appended to both value sequences; both bodies then hold the
  rendered score fragment, which holds the rendered total score and total rank and the
  link ending in the user id. Otherwise the marker is replaced by the empty string, no
  value is appended, and the phrase \<open>Your overall score is\<close> occurs in a body exactly when
  it occurs in the user name or the user id. The test is on \<open>last_score\<close> alone.
\<close>

theorem notification_score_branch:
  "(\<exists>pre post. NOTIFICATION_text = pre @ ''{SCORE}'' @ post \<and>
      (\<forall>x. str_replace NOTIFICATION_text ''{SCORE}'' x = pre @ x @ post)) \<and>
   (\<exists>pre post. NOTIFICATION_html = pre @ ''{SCORE}'' @ post \<and>
      (\<forall>x. str_replace NOTIFICATION_html ''{SCORE}'' x = pre @ x @ post)) \<and>
   (0 < last_score \<longrightarrow>
      get_notification user_id user_name last_score last_rank total_score total_rank =
        compose user_id NOTIFICATION_subject
          (str_replace NOTIFICATION_text ''{SCORE}'' SCORE_text)
          (str_replace NOTIFICATION_html ''{SCORE}'' SCORE_html)
          ([PyStr user_name, PyStr user_id] @
             [PyInt total_score, PyInt total_rank, PyStr user_id])
          ([PyStr user_name, PyStr user_id, PyStr user_id] @
             [PyInt total_score, PyInt total_rank, PyStr user_id]) \<and>
      (\<exists>s t h sec_t sec_h.
         get_notification user_id user_name last_score last_rank total_score total_rank =
           Inr (s, t, h) \<and>
         str_format (prepare SCORE_text) [PyInt total_score, PyInt total_rank, PyStr user_id] =
           Inr sec_t \<and>
         str_format (prepare SCORE_html) [PyInt total_score, PyInt total_rank, PyStr user_id] =
           Inr sec_h \<and>
         sublist sec_t t \<and> sublist sec_h h \<and>
         sublist (''Your overall score is: '' @ str_int total_score @ '' (ranked #'' @
                    str_int total_rank @ '')'') sec_t \<and>
         sublist (''preferences.php?user='' @ user_id) sec_t \<and>
         sublist (''Your overall score is: '' @ str_int total_score @ '' (<i>ranked #'' @
                    str_int total_rank @ ''</i>)'') sec_h \<and>
         sublist (''preferences.php?user='' @ user_id) sec_h)) \<and>
   (\<not> 0 < last_score \<longrightarrow>
      get_notification user_id user_name last_score last_rank total_score total_rank =
        compose user_id NOTIFICATION_subject
          (str_replace NOTIFICATION_text ''{SCORE}'' '''')
          (str_replace NOTIFICATION_html ''{SCORE}'' '''')
          [PyStr user_name, PyStr user_id]
          [PyStr user_name, PyStr user_id, PyStr user_id] \<and>
      (\<exists>s t h.
         get_notification user_id user_name last_score last_rank total_score total_rank =
           Inr (s, t, h) \<and>
         sublist ''Your overall score is'' t =
           (sublist ''Your overall score is'' user_name \<or>
            sublist ''Your overall score is'' user_id) \<and>
         sublist ''Your overall score is'' h =
           (sublist ''Your overall score is'' user_name \<or>
            sublist ''Your overall score is'' user_id)))"
proof (intro conjI impI)
  show "\<exists>pre post. NOTIFICATION_text = pre @ ''{SCORE}'' @ post \<and>
      (\<forall>x. str_replace NOTIFICATION_text ''{SCORE}'' x = pre @ x @ post)"
    using notification_text_splice by blast
  show "\<exists>pre post. NOTIFICATION_html = pre @ ''{SCORE}'' @ post \<and>
      (\<forall>x. str_replace NOTIFICATION_html ''{SCORE}'' x = pre @ x @ post)"
    using notification_html_splice by blast
next
  assume "0 < last_score"
  then show "get_notification user_id user_name last_score last_rank total_score total_rank =
        compose user_id NOTIFICATION_subject
          (str_replace NOTIFICATION_text ''{SCORE}'' SCORE_text)
          (str_replace NOTIFICATION_html ''{SCORE}'' SCORE_html)
          ([PyStr user_name, PyStr user_id] @
             [PyInt total_score, PyInt total_rank, PyStr user_id])
          ([PyStr user_name, PyStr user_id, PyStr user_id] @
             [PyInt total_score, PyInt total_rank, PyStr user_id])"
    by (simp add: get_notification_def Let_def)
next
  assume "0 < last_score"
  then have "get_notification user_id user_name last_score last_rank total_score total_rank =
      Inr (''[Crowdcast] New Data Available (Deadline: Monday 10 AM)'',
           str_join CRLF (notification_score_text_lines user_id user_name total_score total_rank),
           str_join CRLF (notification_score_html_lines user_id user_name total_score total_rank))"
    by (rule get_notification_score_eq)
  with score_text_eq score_html_eq score_section_text score_section_html
    score_text_values score_html_values
  show "\<exists>s t h sec_t sec_h.
         get_notification user_id user_name last_score last_rank total_score total_rank =
           Inr (s, t, h) \<and>
         str_format (prepare SCORE_text) [PyInt total_score, PyInt total_rank, PyStr user_id] =
           Inr sec_t \<and>
         str_format (prepare SCORE_html) [PyInt total_score, PyInt total_rank, PyStr user_id] =
           Inr sec_h \<and>
         sublist sec_t t \<and> sublist sec_h h \<and>
         sublist (''Your overall score is: '' @ str_int total_score @ '' (ranked #'' @
                    str_int total_rank @ '')'') sec_t \<and>
         sublist (''preferences.php?user='' @ user_id) sec_t \<and>
         sublist (''Your overall score is: '' @ str_int total_score @ '' (<i>ranked #'' @
                    str_int total_rank @ ''</i>)'') sec_h \<and>
         sublist (''preferences.php?user='' @ user_id) sec_h"
    by (intro exI conjI) assumption+
next
  assume "\<not> 0 < last_score"
  then show "get_notification user_id user_name last_score last_rank total_score total_rank =
        compose user_id NOTIFICATION_subject
          (str_replace NOTIFICATION_text ''{SCORE}'' '''')
          (str_replace NOTIFICATION_html ''{SCORE}'' '''')
          [PyStr user_name, PyStr user_id]
          [PyStr user_name, PyStr user_id, PyStr user_id]"
    by (simp add: get_notification_def Let_def)
next
  assume "\<not> 0 < last_score"
  then show "\<exists>s t h.
         get_notification user_id user_name last_score last_rank total_score total_rank =
           Inr (s, t, h) \<and>
         sublist ''Your overall score is'' t =
           (sublist ''Your overall score is'' user_name \<or>
            sublist ''Your overall score is'' user_id) \<and>
         sublist ''Your overall score is'' h =
           (sublist ''Your overall score is'' user_name \<or>
            sublist ''Your overall score is'' user_id)"
    by (simp add: get_notification_plain_eq notification_text_markers notification_html_markers)
qed

theorem notification_score_branch_witness:
  "(0::int) < 5 \<and>
   (\<exists>s t h. get_notification ''u123'' ''Jane'' 5 2 100 3 = Inr (s, t, h) \<and>
      sublist ''Your overall score is: 100 (ranked #3)'' t \<and>
      sublist ''preferences.php?user=u123'' t \<and>
      sublist ''Your overall score is: 100 (<i>ranked #3</i>)'' h \<and>
      sublist ''preferences.php?user=u123'' h) \<and>
   \<not> (0::int) < 0 \<and>
   (\<exists>s t h. get_notification ''u123'' ''Jane'' 0 2 100 3 = Inr (s, t, h) \<and>
      \<not> sublist ''Your overall score is'' t \<and>
      \<not> sublist ''Your overall score is'' h)"
proof -
  have digits: "str_int 100 = ''100''" "str_int 3 = ''3''"
    by (simp_all add: str_int_def str_nat.simps digit_char_def)
  have absent: "\<not> sublist ''Your overall score is'' ''Jane''"
    "\<not> sublist ''Your overall score is'' ''u123''"
    by (simp_all add: sublist_Cons_right)
  have pos: "(0::int) < 5" and neg: "\<not> (0::int) < 0"
    by simp_all
  from notification_score_branch [where user_id = "''u123''" and user_name = "''Jane''"
      and last_score = 5 and last_rank = 2 and total_score = 100 and total_rank = 3] pos
  obtain s t h sec_t sec_h where
    "get_notification ''u123'' ''Jane'' 5 2 100 3 = Inr (s, t, h)"
    "sublist sec_t t" "sublist sec_h h"
    "sublist (''Your overall score is: '' @ str_int 100 @ '' (ranked #'' @ str_int 3 @ '')'') sec_t"
    "sublist (''preferences.php?user='' @ ''u123'') sec_t"
    "sublist (''Your overall score is: '' @ str_int 100 @ '' (<i>ranked #'' @ str_int 3 @ ''</i>)'') sec_h"
    "sublist (''preferences.php?user='' @ ''u123'') sec_h"
    by blast
  then have score: "\<exists>s t h. get_notification ''u123'' ''Jane'' 5 2 100 3 = Inr (s, t, h) \<and>
      sublist ''Your overall score is: 100 (ranked #3)'' t \<and>
      sublist ''preferences.php?user=u123'' t \<and>
      sublist ''Your overall score is: 100 (<i>ranked #3</i>)'' h \<and>
      sublist ''preferences.php?user=u123'' h"
    using sublist_trans [of _ sec_t t] sublist_trans [of _ sec_h h] by (simp add: digits)
  from notification_score_branch [where user_id = "''u123''" and user_name = "''Jane''"
      and last_score = 0 and last_rank = 2 and total_score = 100 and total_rank = 3] neg
  obtain s' t' h' where
    "get_notification ''u123'' ''Jane'' 0 2 100 3 = Inr (s', t', h')"
    "sublist ''Your overall score is'' t' =
       (sublist ''Your overall score is'' ''Jane'' \<or> sublist ''Your overall score is'' ''u123'')"
    "sublist ''Your overall score is'' h' =
       (sublist ''Your overall score is'' ''Jane'' \<or> sublist ''Your overall score is'' ''u123'')"
    by blast
  with absent
  have plain: "\<exists>s t h. get_notification ''u123'' ''Jane'' 0 2 100 3 = Inr (s, t, h) \<and>
      \<not> sublist ''Your overall score is'' t \<and>
      \<not> sublist ''Your overall score is'' h"
    by blast
  from pos score neg plain show ?thesis
    by (intro conjI)
qed

theorem notification_score_branch_counterexample:
  "is_ok (get_notification ''u1'' ''Your overall score is'' 0 1 250 1) \<and>
   sublist ''Your overall score is''
     (text_of (get_notification ''u1'' ''Your overall score is'' 0 1 250 1))"
  by (simp add: get_notification_plain_eq is_ok_def text_of_def notification_text_markers)

text \<open>
  C2 (as stated it fails: a body holds the text \<open>{SCORE}\<close> when the user name does; the
  counterexample is an alert for a user named \<open>{SCORE}\<close>).
  Amended: for all strings \<open>user_id\<close> and \<open>user_name\<close> and all integer scores and ranks
  each method returns a triple, so the substitution never fails, and each of the markers
  \<open>%s\<close>, \<open>%d\<close> and \<open>{SCORE}\<close> occurs in a returned body exactly when it occurs in the
  user name or the user id.
\<close>

theorem markers_only_from_arguments:
  assumes "m \<in> {''%s'', ''%d'', ''{SCORE}''}"
  shows
    "(\<exists>s t h. get_alert user_id user_name = Inr (s, t, h) \<and>
        sublist m t = (sublist m user_name \<or> sublist m user_id) \<and>
        sublist m h = (sublist m user_name \<or> sublist m user_id)) \<and>
     (\<exists>s t h. get_notification user_id user_name last_score last_rank total_score total_rank
          = Inr (s, t, h) \<and>
        sublist m t = (sublist m user_name \<or> sublist m user_id) \<and>
        sublist m h = (sublist m user_name \<or> sublist m user_id)) \<and>
     (\<exists>s t h. get_reminder user_id user_name = Inr (s, t, h) \<and>
        sublist m t = (sublist m user_name \<or> sublist m user_id) \<and>
        sublist m h = (sublist m user_name \<or> sublist m user_id))"
proof (intro conjI)
  note mk = all_markers [OF assms]
  show "\<exists>s t h. get_alert user_id user_name = Inr (s, t, h) \<and>
        sublist m t = (sublist m user_name \<or> sublist m user_id) \<and>
        sublist m h = (sublist m user_name \<or> sublist m user_id)"
    by (rule result_exI [OF get_alert_eq]) (rule mk)+
  show "\<exists>s t h. get_reminder user_id user_name = Inr (s, t, h) \<and>
        sublist m t = (sublist m user_name \<or> sublist m user_id) \<and>
        sublist m h = (sublist m user_name \<or> sublist m user_id)"
    by (rule result_exI [OF get_reminder_eq]) (rule mk)+
  show "\<exists>s t h. get_notification user_id user_name last_score last_rank total_score total_rank
          = Inr (s, t, h) \<and>
        sublist m t = (sublist m user_name \<or> sublist m user_id) \<and>
        sublist m h = (sublist m user_name \<or> sublist m user_id)"
  proof (cases "0 < last_score")
    case True
    show ?thesis
      by (rule result_exI [OF get_notification_score_eq [OF True]]) (rule mk)+
  next
    case False
    show ?thesis
      by (rule result_exI [OF get_notification_plain_eq [OF False]]) (rule mk)+
  qed
qed

theorem markers_only_from_arguments_witness:
  "''{SCORE}'' \<in> {''%s'', ''%d'', ''{SCORE}''} \<and>
   (\<exists>s t h. get_alert ''u123'' ''Jane'' = Inr (s, t, h) \<and>
      \<not> sublist ''{SCORE}'' t \<and> \<not> sublist ''{SCORE}'' h) \<and>
   (\<exists>s t h. get_notification ''u123'' ''Jane'' 5 2 100 3 = Inr (s, t, h) \<and>
      \<not> sublist ''{SCORE}'' t \<and> \<not> sublist ''{SCORE}'' h) \<and>
   (\<exists>s t h. get_reminder ''u123'' ''Jane'' = Inr (s, t, h) \<and>
      \<not> sublist ''{SCORE}'' t \<and> \<not> sublist ''{SCORE}'' h)"
proof -
  have m: "''{SCORE}'' \<in> {''%s'', ''%d'', ''{SCORE}''}"
    by simp
  have absent: "\<not> sublist ''{SCORE}'' ''Jane''" "\<not> sublist ''{SCORE}'' ''u123''"
    by (simp_all add: sublist_Cons_right)
  from markers_only_from_arguments [OF m, where user_id = "''u123''" and user_name = "''Jane''"
      and last_score = 5 and last_rank = 2 and total_score = 100 and total_rank = 3]
    absent m
  show ?thesis
    by blast
qed

theorem markers_only_from_arguments_counterexample:
  "is_ok (get_alert ''u1'' ''{SCORE}'') \<and>
   sublist ''{SCORE}'' (text_of (get_alert ''u1'' ''{SCORE}''))"
  by (simp add: get_alert_eq is_ok_def text_of_def alert_text_markers)

text \<open>
  C3 (as stated it fails: the values are substituted after the normalization, so a user id
  that ends with a blank ends the text body with a blank; the counterexample is an alert
  for the user id \<open>u1\<close> followed by a blank).
  Amended: \<open>prepare\<close> returns a line-normalized string for every template, and that is
  the string the values are substituted into. When the user name and the user id hold no
  line feed and the user id is not empty and does not end with whitespace, both bodies
  that each method returns are line-normalized: they have no leading or trailing
  whitespace and are the CRLF-join of lines without leading or trailing whitespace.
\<close>

theorem bodies_line_normalized:
  "line_normalized (prepare template) \<and>
   (LF \<notin> set user_name \<and> LF \<notin> set user_id \<and> user_id \<noteq> [] \<and> \<not> isspace (last user_id) \<longrightarrow>
     (\<exists>s t h. get_alert user_id user_name = Inr (s, t, h) \<and>
        line_normalized t \<and> line_normalized h) \<and>
     (\<exists>s t h. get_notification user_id user_name last_score last_rank total_score total_rank
          = Inr (s, t, h) \<and>
        line_normalized t \<and> line_normalized h) \<and>
     (\<exists>s t h. get_reminder user_id user_name = Inr (s, t, h) \<and>
        line_normalized t \<and> line_normalized h))"
proof (intro conjI impI)
  show "line_normalized (prepare template)"
    by (rule line_normalized_prepare)
next
  assume "LF \<notin> set user_name \<and> LF \<notin> set user_id \<and> user_id \<noteq> [] \<and> \<not> isspace (last user_id)"
  then have a: "LF \<notin> set user_name" "LF \<notin> set user_id" "user_id \<noteq> []"
    "\<not> isspace (last user_id)"
    by simp_all
  show "\<exists>s t h. get_alert user_id user_name = Inr (s, t, h) \<and>
        line_normalized t \<and> line_normalized h"
    by (rule result_exI [OF get_alert_eq])
      (rule alert_text_normalized [OF a] alert_html_normalized [OF a])+
  show "\<exists>s t h. get_reminder user_id user_name = Inr (s, t, h) \<and>
        line_normalized t \<and> line_normalized h"
    by (rule result_exI [OF get_reminder_eq])
      (rule reminder_text_normalized [OF a] reminder_html_normalized [OF a])+
  show "\<exists>s t h. get_notification user_id user_name last_score last_rank total_score total_rank
          = Inr (s, t, h) \<and>
        line_normalized t \<and> line_normalized h"
  proof (cases "0 < last_score")
    case True
    show ?thesis
      by (rule result_exI [OF get_notification_score_eq [OF True]])
        (rule notification_score_text_normalized [OF a]
          notification_score_html_normalized [OF a])+
  next
    case False
    show ?thesis
      by (rule result_exI [OF get_notification_plain_eq [OF False]])
        (rule notification_text_normalized [OF a] notification_html_normalized [OF a])+
  qed
qed

theorem bodies_line_normalized_witness:
  "line_normalized (prepare ALERT_text) \<and>
   LF \<notin> set ''Jane'' \<and> LF \<notin> set ''u123'' \<and> ''u123'' \<noteq> [] \<and> \<not> isspace (last ''u123'') \<and>
   (\<exists>s t h. get_alert ''u123'' ''Jane'' = Inr (s, t, h) \<and>
      line_normalized t \<and> line_normalized h) \<and>
   (\<exists>s t h. get_notification ''u123'' ''Jane'' 5 2 100 3 = Inr (s, t, h) \<and>
      line_normalized t \<and> line_normalized h) \<and>
   (\<exists>s t h. get_reminder ''u123'' ''Jane'' = Inr (s, t, h) \<and>
      line_normalized t \<and> line_normalized h)"
proof -
  have ok: "LF \<notin> set ''Jane'' \<and> LF \<notin> set ''u123'' \<and> ''u123'' \<noteq> [] \<and> \<not> isspace (last ''u123'')"
    by (simp add: LF_def isspace_def)
  from bodies_line_normalized [where template = ALERT_text and user_id = "''u123''"
      and user_name = "''Jane''" and last_score = 5 and last_rank = 2
      and total_score = 100 and total_rank = 3] ok
  show ?thesis
    by blast
qed

theorem bodies_line_normalized_counterexample:
  "is_ok (get_alert ''u1 '' ''Bob'') \<and>
   \<not> line_normalized (text_of (get_alert ''u1 '' ''Bob''))"
proof -
  let ?t = "str_join CRLF (alert_text_lines ''u1 '' ''Bob'')"
  have "last ?t = CHR '' ''" and "?t \<noteq> []"
    by (simp_all add: lines_defs CRLF_def last_single last_Cons2 del: last.simps)
  then have "str_strip ?t \<noteq> ?t"
    by (simp add: trailing_space_not_stripped isspace_def)
  then have "\<not> line_normalized ?t"
    by (simp add: line_normalized_def)
  then show ?thesis
    by (simp add: get_alert_eq is_ok_def text_of_def)
qed

end
